theory Spec2Isabelle
  imports Main "HOL-Library.Sublist" "HOL-Library.AList"
begin

section \<open>Python strings\<close>

text \<open>
  A Python \<open>str\<close> is modelled as a \<^typ>\<open>string\<close>; a character stands for a code point
  below 256. The four string methods the program calls are written out below.
\<close>

text \<open>\<open>str.isspace\<close> on one character, for the code points below 256.\<close>

definition str_isspace :: "char \<Rightarrow> bool" where
  "str_isspace c =
     (c = CHR 0x09 \<or> c = CHR 0x0A \<or> c = CHR 0x0B \<or> c = CHR 0x0C \<or> c = CHR 0x0D \<or>
      c = CHR 0x1C \<or> c = CHR 0x1D \<or> c = CHR 0x1E \<or> c = CHR 0x1F \<or> c = CHR 0x20 \<or>
      c = CHR 0x85 \<or> c = CHR 0xA0)"

text \<open>\<open>s.strip()\<close>: leading and trailing whitespace removed.\<close>

definition str_strip :: "string \<Rightarrow> string" where
  "str_strip s = rev (dropWhile str_isspace (rev (dropWhile str_isspace s)))"

text \<open>\<open>sep.join(xs)\<close>.\<close>

fun str_join :: "string \<Rightarrow> string list \<Rightarrow> string" where
  "str_join sep [] = []"
| "str_join sep [x] = x"
| "str_join sep (x # y # ys) = x @ sep @ str_join sep (y # ys)"

text \<open>
  \<open>s.split(sep)\<close> for a separator of one character (the program only splits at
  \<open>"\n"\<close>): the result is never empty, and \<open>"".split("\n")\<close> is \<open>[""]\<close>.
\<close>

fun str_split :: "char \<Rightarrow> string \<Rightarrow> string list" where
  "str_split sep [] = [[]]"
| "str_split sep (c # cs) =
     (if c = sep then [] # str_split sep cs
      else (case str_split sep cs of
              [] \<Rightarrow> [[c]]
            | w # ws \<Rightarrow> (c # w) # ws))"

text \<open>
  \<open>s.replace(old, new)\<close>: every occurrence of \<open>old\<close>, found from the left and not
  overlapping, is replaced. The program never passes an empty \<open>old\<close>; for it the
  model leaves \<open>s\<close> unchanged.
\<close>

function str_replace :: "string \<Rightarrow> string \<Rightarrow> string \<Rightarrow> string" where
  "str_replace old new [] = []"
| "str_replace old new (c # cs) =
     (if old \<noteq> [] \<and> prefix old (c # cs)
      then new @ str_replace old new (drop (length old) (c # cs))
      else c # str_replace old new cs)"
  by pat_completeness auto
termination
  by (relation "measure (\<lambda>(old, new, s). length s)") auto

text \<open>\<open>str(n)\<close> for an integer: decimal digits, with a minus sign when negative.\<close>

fun dec_digits :: "nat \<Rightarrow> string" where
  "dec_digits n =
     (if n < 10 then [char_of (48 + n)]
      else dec_digits (n div 10) @ [char_of (48 + n mod 10)])"

definition str_of_int :: "int \<Rightarrow> string" where
  "str_of_int i = (if i < 0 then CHR ''-'' # dec_digits (nat (- i)) else dec_digits (nat i))"

text \<open>
  \<open>repr(s)\<close> for a string: single quotes unless the text has a single quote and no double
  quote; the quote and the backslash are escaped, control and unprintable characters are
  written as \<open>\t\<close>, \<open>\n\<close>, \<open>\r\<close> or \<open>\xHH\<close>.
\<close>

definition hex_digit :: "nat \<Rightarrow> char" where
  "hex_digit d = (if d < 10 then char_of (48 + d) else char_of (87 + d))"

definition repr_char :: "char \<Rightarrow> char \<Rightarrow> string" where
  "repr_char quote c =
     (let n = (of_char c :: nat) in
      if c = quote \<or> c = CHR 0x5C then [CHR 0x5C, c]
      else if c = CHR 0x09 then [CHR 0x5C, CHR ''t'']
      else if c = CHR 0x0A then [CHR 0x5C, CHR ''n'']
      else if c = CHR 0x0D then [CHR 0x5C, CHR ''r'']
      else if n < 32 \<or> n = 127 \<or> (128 \<le> n \<and> n \<le> 160) \<or> n = 173
        then [CHR 0x5C, CHR ''x'', hex_digit (n div 16), hex_digit (n mod 16)]
      else [c])"

definition repr_str :: "string \<Rightarrow> string" where
  "repr_str s =
     (let quote = (if CHR 0x27 \<in> set s \<and> CHR 0x22 \<notin> set s then CHR 0x22 else CHR 0x27)
      in [quote] @ concat (map (repr_char quote) s) @ [quote])"

section \<open>Values stored in the session\<close>

text \<open>
  The values the program stores in \<open>candidate_info\<close>: text (name, contact, position),
  an integer (experience) and a list of technology names (tech\_stack).
\<close>

datatype pyval = PStr string | PInt int | PList "string list"

text \<open>\<open>str(value)\<close>, which an f-string applies to an interpolated value.\<close>

fun py_str :: "pyval \<Rightarrow> string" where
  "py_str (PStr s) = s"
| "py_str (PInt i) = str_of_int i"
| "py_str (PList xs) = ''['' @ str_join '', '' (map repr_str xs) @ '']''"

text \<open>
  A Python \<open>dict\<close> keeps its keys in insertion order: an association list with
  \<^const>\<open>AList.update\<close> for \<open>d[k] = v\<close> (an existing key keeps its place, a new key goes
  to the end) and \<^const>\<open>map_of\<close> for the lookup.
\<close>

type_synonym candidate_info = "(string \<times> pyval) list"

record message =
  role :: string
  content :: string

section \<open>JSON values and \<open>json.loads\<close>\<close>

datatype json =
    JNull
  | JBool bool
  | JNumber string
  | JString string
  | JArray "json list"
  | JObject "(string \<times> json) list"

text \<open>
  \<open>json.loads\<close> belongs to Python's standard library and not to the repository. It is
  not modelled: the decoder is a parameter (kept in the configuration below), and a call
  to it has one of three outcomes: a value, \<open>JSONDecodeError\<close>, or another exception
  (\<open>RecursionError\<close>, \<open>ValueError\<close>, ...) with its text.
\<close>

datatype loads_result = Loaded json | JSONDecodeError | LoadsRaised string

section \<open>The system prompt (\<open>openai_helper.get_system_prompt\<close>, \<open>anthropic_helper.get_system_prompt\<close>)\<close>

text \<open>
  The two helper modules carry the same function, character for character. Its literals
  are written once here; the function is given for each module.
\<close>

definition base_prompt_text :: string where
  "base_prompt_text = ''You are an intelligent hiring assistant for TalentScout, a recruitment agency specializing in tech placements. You are conducting a preliminary technical interview with a candidate. Be professional but conversational and friendly.\<newline>\<newline>Candidate information collected so far:\<newline>''"

definition stage_prompt_1 :: string where
  "stage_prompt_1 = ''\<newline>You are at the INTRODUCTION stage of the interview.\<newline>Introduce yourself as the TalentScout interview assistant. \<newline>The candidate has just provided their name. \<newline>Acknowledge their name and ask for their contact information (email and phone number).\<newline>Be friendly and professional.\<newline>''"

definition stage_prompt_2 :: string where
  "stage_prompt_2 = ''\<newline>You are at the CONTACT INFORMATION stage of the interview.\<newline>The candidate has just provided their contact details.\<newline>Thank them and now ask about their years of experience and what position they're looking for.\<newline>Keep your response concise and professional.\<newline>''"

definition stage_prompt_3 :: string where
  "stage_prompt_3 = ''\<newline>You are at the EXPERIENCE & POSITION stage of the interview.\<newline>The candidate has just shared their experience level and desired position.\<newline>Acknowledge this information and now ask them to select their technical skills from a list that will be shown.\<newline>Encourage them to select all technologies they are proficient in.\<newline>''"

definition stage_prompt_4 :: string where
  "stage_prompt_4 = ''\<newline>You are at the TECHNICAL SKILLS stage of the interview.\<newline>The candidate has just selected their technical stack.\<newline>Acknowledge their skills and explain that you'll ask a few technical questions to assess their expertise.\<newline>Tell them you'll start with questions specific to their selected technologies.\<newline>''"

definition stage_prompt_5 :: string where
  "stage_prompt_5 = ''\<newline>You are at the TECHNICAL ASSESSMENT stage of the interview.\<newline>Listen carefully to the candidate's answers and provide thoughtful follow-up questions.\<newline>Evaluate their technical knowledge but maintain a supportive tone.\<newline>Focus on their problem-solving approach and depth of understanding.\<newline>''"

definition stage_prompt_6 :: string where
  "stage_prompt_6 = ''\<newline>You are at the CONCLUSION stage of the interview.\<newline>Thank the candidate for their time and responses.\<newline>Summarize what you've learned about their background and skills.\<newline>Explain that a TalentScout recruiter will contact them soon to discuss potential opportunities.\<newline>Provide a positive and encouraging conclusion to the interview.\<newline>''"

definition stage_prompts :: "(int \<times> string) list" where
  "stage_prompts =
     [(1, stage_prompt_1), (2, stage_prompt_2), (3, stage_prompt_3),
      (4, stage_prompt_4), (5, stage_prompt_5), (6, stage_prompt_6)]"

text \<open>The body of the loop over \<open>candidate_info.items()\<close>: one line is appended.\<close>

fun append_field :: "string \<Rightarrow> string \<times> pyval \<Rightarrow> string" where
  "append_field base_prompt (key, PList xs) =
     (if key = ''tech_stack''
      then base_prompt @ ''- '' @ key @ '': '' @ str_join '', '' xs @ ''\<newline>''
      else base_prompt @ ''- '' @ key @ '': '' @ py_str (PList xs) @ ''\<newline>'')"
| "append_field base_prompt (key, PStr s) =
     base_prompt @ ''- '' @ key @ '': '' @ py_str (PStr s) @ ''\<newline>''"
| "append_field base_prompt (key, PInt i) =
     base_prompt @ ''- '' @ key @ '': '' @ py_str (PInt i) @ ''\<newline>''"

definition openai_get_system_prompt :: "int \<Rightarrow> candidate_info \<Rightarrow> string" where
  "openai_get_system_prompt interview_stage candidate_info =
     (let base_prompt = foldl append_field base_prompt_text candidate_info
      in case map_of stage_prompts interview_stage of
           Some p \<Rightarrow> base_prompt @ p
         | None \<Rightarrow> base_prompt)"

definition anthropic_get_system_prompt :: "int \<Rightarrow> candidate_info \<Rightarrow> string" where
  "anthropic_get_system_prompt interview_stage candidate_info =
     (let base_prompt = foldl append_field base_prompt_text candidate_info
      in case map_of stage_prompts interview_stage of
           Some p \<Rightarrow> base_prompt @ p
         | None \<Rightarrow> base_prompt)"

text \<open>
  The prompt as the specification words it: the preamble, one rendered line per field
  (tech\_stack comma-joined, any other field as \<open>key: value\<close>), then the instruction block
  of the stage when the stage has one.
\<close>

definition spec_field_line :: "string \<times> pyval \<Rightarrow> string" where
  "spec_field_line kv =
     (case kv of
        (key, PList xs) \<Rightarrow>
          if key = ''tech_stack'' then ''- tech_stack: '' @ str_join '', '' xs @ ''\<newline>''
          else ''- '' @ key @ '': '' @ py_str (PList xs) @ ''\<newline>''
      | (key, PStr s) \<Rightarrow> ''- '' @ key @ '': '' @ s @ ''\<newline>''
      | (key, PInt i) \<Rightarrow> ''- '' @ key @ '': '' @ str_of_int i @ ''\<newline>'')"

definition spec_stage_block :: "int \<Rightarrow> string" where
  "spec_stage_block stage =
     (if stage = 1 then stage_prompt_1
      else if stage = 2 then stage_prompt_2
      else if stage = 3 then stage_prompt_3
      else if stage = 4 then stage_prompt_4
      else if stage = 5 then stage_prompt_5
      else if stage = 6 then stage_prompt_6
      else [])"

definition spec_system_prompt :: "int \<Rightarrow> candidate_info \<Rightarrow> string" where
  "spec_system_prompt stage info =
     base_prompt_text @ concat (map spec_field_line info) @ spec_stage_block stage"

section \<open>The two providers (\<open>openai_helper\<close>, \<open>anthropic_helper\<close>)\<close>

text \<open>
  A call that may raise returns a sum: \<open>Inl msg\<close> is an exception whose \<open>str\<close> is
  \<open>msg\<close>, \<open>Inr v\<close> is the returned value.

  The remote completion call of each provider is a parameter: a function from the request
  to the text of the reply, or to the exception the client raises. A request is identified
  by the values the helper interpolates into it; the fixed wording around them and the
  sampling settings are not reproduced.
\<close>

datatype request =
    ChatCompletion string "message list"
  | QuestionsPrompt string
  | EvaluationPrompt string string string

record api =
  openai_create :: "request \<Rightarrow> string + string"
  anthropic_create :: "request \<Rightarrow> string + string"

text \<open>
  What is fixed when the modules are loaded: the two availability flags of \<open>ai_bridge\<close>,
  whether each helper module built its client, and the decoder \<open>json.loads\<close> that the
  helpers import.
\<close>

record config =
  has_openai :: bool
  has_anthropic :: bool
  openai_client :: bool
  anthropic_client :: bool
  json_loads :: "string \<Rightarrow> loads_result"

definition neutral_role :: "message \<Rightarrow> message" where
  "neutral_role m =
     \<lparr>role = (if role m = ''assistant'' then ''assistant'' else ''user''), content = content m\<rparr>"

text \<open>
  \<open>", ".join(tech_stack)\<close> on a stored value: a string is joined character by
  character, an integer is not iterable.
\<close>

definition join_tech_stack :: "pyval \<Rightarrow> string + string" where
  "join_tech_stack v =
     (case v of
        PList xs \<Rightarrow> Inr (str_join '', '' xs)
      | PStr s \<Rightarrow> Inr (str_join '', '' (map (\<lambda>c. [c]) s))
      | PInt i \<Rightarrow> Inl ''can only join an iterable'')"

definition openai_generate_chat_response ::
    "config \<Rightarrow> api \<Rightarrow> message list \<Rightarrow> int \<Rightarrow> candidate_info \<Rightarrow> string + string" where
  "openai_generate_chat_response cfg a chat_history interview_stage candidate_info =
     (if \<not> openai_client cfg then Inl ''OpenAI client not initialized''
      else openai_create a
             (ChatCompletion (openai_get_system_prompt interview_stage candidate_info)
                (map neutral_role chat_history)))"

definition anthropic_generate_chat_response ::
    "config \<Rightarrow> api \<Rightarrow> message list \<Rightarrow> int \<Rightarrow> candidate_info \<Rightarrow> string + string" where
  "anthropic_generate_chat_response cfg a chat_history interview_stage candidate_info =
     (if \<not> anthropic_client cfg then Inl ''Anthropic client not initialized''
      else anthropic_create a
             (ChatCompletion (anthropic_get_system_prompt interview_stage candidate_info)
                (map neutral_role chat_history)))"

definition openai_generate_technical_questions :: "config \<Rightarrow> api \<Rightarrow> pyval \<Rightarrow> string + string" where
  "openai_generate_technical_questions cfg a tech_stack =
     (if \<not> openai_client cfg then Inl ''OpenAI client not initialized''
      else case join_tech_stack tech_stack of
             Inl e \<Rightarrow> Inl e
           | Inr tech_list \<Rightarrow> openai_create a (QuestionsPrompt tech_list))"

definition anthropic_generate_technical_questions :: "config \<Rightarrow> api \<Rightarrow> pyval \<Rightarrow> string + string" where
  "anthropic_generate_technical_questions cfg a tech_stack =
     (if \<not> anthropic_client cfg then Inl ''Anthropic client not initialized''
      else case join_tech_stack tech_stack of
             Inl e \<Rightarrow> Inl e
           | Inr tech_list \<Rightarrow> anthropic_create a (QuestionsPrompt tech_list))"

text \<open>
  The object both helpers return when \<open>json.loads\<close> raises \<open>JSONDecodeError\<close>. Any
  other exception of the decoder passes the inner handler and is raised again by the
  outer one.
\<close>

definition helper_parse_fallback :: json where
  "helper_parse_fallback =
     JObject
       [(''assessment'', JString ''Unable to properly evaluate the response''),
        (''response'', JString ''Thank you for your answer. Let's move on to the next question.''),
        (''follow_up'', JString ''Could you tell me more about your practical experience with this technology?'')]"

definition openai_evaluate_technical_response ::
    "config \<Rightarrow> api \<Rightarrow> string \<Rightarrow> string \<Rightarrow> pyval \<Rightarrow> string + json" where
  "openai_evaluate_technical_response cfg a question answer tech_stack =
     (if \<not> openai_client cfg then Inl ''OpenAI client not initialized''
      else case join_tech_stack tech_stack of
             Inl e \<Rightarrow> Inl e
           | Inr tech_list \<Rightarrow>
               (case openai_create a (EvaluationPrompt tech_list question answer) of
                  Inl e \<Rightarrow> Inl e
                | Inr text \<Rightarrow>
                    (case json_loads cfg text of
                       Loaded result \<Rightarrow> Inr result
                     | JSONDecodeError \<Rightarrow> Inr helper_parse_fallback
                     | LoadsRaised e \<Rightarrow> Inl e)))"

text \<open>The cleaning of the reply in \<open>anthropic_helper\<close>, before it is parsed.\<close>

definition fence :: string where
  "fence = [CHR 0x60, CHR 0x60, CHR 0x60]"

definition clean_response :: "string \<Rightarrow> string" where
  "clean_response text =
     str_strip (str_replace fence [] (str_replace (fence @ ''json'') [] text))"

definition anthropic_evaluate_technical_response ::
    "config \<Rightarrow> api \<Rightarrow> string \<Rightarrow> string \<Rightarrow> pyval \<Rightarrow> string + json" where
  "anthropic_evaluate_technical_response cfg a question answer tech_stack =
     (if \<not> anthropic_client cfg then Inl ''Anthropic client not initialized''
      else case join_tech_stack tech_stack of
             Inl e \<Rightarrow> Inl e
           | Inr tech_list \<Rightarrow>
               (case anthropic_create a (EvaluationPrompt tech_list question answer) of
                  Inl e \<Rightarrow> Inl e
                | Inr text \<Rightarrow>
                    (case json_loads cfg (clean_response text) of
                       Loaded result \<Rightarrow> Inr result
                     | JSONDecodeError \<Rightarrow> Inr helper_parse_fallback
                     | LoadsRaised e \<Rightarrow> Inl e)))"

section \<open>The gateway (\<open>ai_bridge\<close>)\<close>

text \<open>
  Each operation returns the lines it logged about the providers and its outcome. The log
  keeps one entry per \<open>logger\<close> call of \<open>ai_bridge\<close>: an attempt, a failure with the text
  of the exception, or the report that no provider is available.
\<close>

datatype provider = OpenAI | Anthropic

datatype log_entry = Attempt provider | Failed provider string | NoProvider

definition chat_error_reply :: "string \<Rightarrow> string" where
  "chat_error_reply e = ''I apologize, but I'm having trouble connecting to our AI systems. Please try again later or contact TalentScout directly. Error: '' @ e"

definition chat_unavailable_reply :: string where
  "chat_unavailable_reply = ''I apologize, but I'm unable to connect to our AI systems. Please contact TalentScout directly for assistance.''"

definition questions_error_reply :: "string \<Rightarrow> string" where
  "questions_error_reply e = ''I apologize, but I'm having trouble generating technical questions. Please provide more details about your experience with these technologies instead. Error: '' @ e"

definition questions_unavailable_reply :: string where
  "questions_unavailable_reply = ''I apologize, but I'm unable to generate technical questions at this time. Please describe your experience with these technologies in your own words.''"

definition evaluation_error_response :: json where
  "evaluation_error_response =
     JObject
       [(''assessment'', JString ''Unable to evaluate response''),
        (''response'', JString ''Thank you for your answer. I'm having some technical difficulties with my evaluation system.''),
        (''follow_up'', JString ''Can you tell me more about your experience with this technology?'')]"

definition evaluation_unavailable_response :: json where
  "evaluation_unavailable_response =
     JObject
       [(''assessment'', JString ''Unable to evaluate response''),
        (''response'', JString ''Thank you for your answer. I'm currently unable to access our evaluation system.''),
        (''follow_up'', JString ''Can you tell me more about your experience with this technology?'')]"

text \<open>
  The second half of each operation (\<open>if has_anthropic: ... \<close> and the final
  \<open>return\<close>), reached when OpenAI is not available or has failed with Anthropic
  available; \<open>lg\<close> is what was logged before.
\<close>

definition chat_via_anthropic ::
    "config \<Rightarrow> api \<Rightarrow> message list \<Rightarrow> int \<Rightarrow> candidate_info \<Rightarrow> log_entry list
      \<Rightarrow> log_entry list \<times> (string + string)" where
  "chat_via_anthropic cfg a chat_history interview_stage candidate_info lg =
     (if has_anthropic cfg then
        (case anthropic_generate_chat_response cfg a chat_history interview_stage candidate_info of
           Inr v \<Rightarrow> (lg @ [Attempt Anthropic], Inr v)
         | Inl e \<Rightarrow> (lg @ [Attempt Anthropic, Failed Anthropic e], Inr (chat_error_reply e)))
      else (lg @ [NoProvider], Inr chat_unavailable_reply))"

definition generate_chat_response ::
    "config \<Rightarrow> api \<Rightarrow> message list \<Rightarrow> int \<Rightarrow> candidate_info
      \<Rightarrow> log_entry list \<times> (string + string)" where
  "generate_chat_response cfg a chat_history interview_stage candidate_info =
     (if has_openai cfg then
        (case openai_generate_chat_response cfg a chat_history interview_stage candidate_info of
           Inr v \<Rightarrow> ([Attempt OpenAI], Inr v)
         | Inl e \<Rightarrow>
             if \<not> has_anthropic cfg
             then ([Attempt OpenAI, Failed OpenAI e], Inr (chat_error_reply e))
             else chat_via_anthropic cfg a chat_history interview_stage candidate_info
                    [Attempt OpenAI, Failed OpenAI e])
      else chat_via_anthropic cfg a chat_history interview_stage candidate_info [])"

definition questions_via_anthropic ::
    "config \<Rightarrow> api \<Rightarrow> pyval \<Rightarrow> log_entry list \<Rightarrow> log_entry list \<times> (string + string)" where
  "questions_via_anthropic cfg a tech_stack lg =
     (if has_anthropic cfg then
        (case anthropic_generate_technical_questions cfg a tech_stack of
           Inr v \<Rightarrow> (lg @ [Attempt Anthropic], Inr v)
         | Inl e \<Rightarrow> (lg @ [Attempt Anthropic, Failed Anthropic e], Inr (questions_error_reply e)))
      else (lg @ [NoProvider], Inr questions_unavailable_reply))"

definition generate_technical_questions ::
    "config \<Rightarrow> api \<Rightarrow> pyval \<Rightarrow> log_entry list \<times> (string + string)" where
  "generate_technical_questions cfg a tech_stack =
     (if has_openai cfg then
        (case openai_generate_technical_questions cfg a tech_stack of
           Inr v \<Rightarrow> ([Attempt OpenAI], Inr v)
         | Inl e \<Rightarrow>
             if \<not> has_anthropic cfg
             then ([Attempt OpenAI, Failed OpenAI e], Inr (questions_error_reply e))
             else questions_via_anthropic cfg a tech_stack [Attempt OpenAI, Failed OpenAI e])
      else questions_via_anthropic cfg a tech_stack [])"

definition evaluate_via_anthropic ::
    "config \<Rightarrow> api \<Rightarrow> string \<Rightarrow> string \<Rightarrow> pyval \<Rightarrow> log_entry list
      \<Rightarrow> log_entry list \<times> (string + json)" where
  "evaluate_via_anthropic cfg a question answer tech_stack lg =
     (if has_anthropic cfg then
        (case anthropic_evaluate_technical_response cfg a question answer tech_stack of
           Inr v \<Rightarrow> (lg @ [Attempt Anthropic], Inr v)
         | Inl e \<Rightarrow> (lg @ [Attempt Anthropic, Failed Anthropic e], Inr evaluation_error_response))
      else (lg @ [NoProvider], Inr evaluation_unavailable_response))"

definition evaluate_technical_response ::
    "config \<Rightarrow> api \<Rightarrow> string \<Rightarrow> string \<Rightarrow> pyval \<Rightarrow> log_entry list \<times> (string + json)" where
  "evaluate_technical_response cfg a question answer tech_stack =
     (if has_openai cfg then
        (case openai_evaluate_technical_response cfg a question answer tech_stack of
           Inr v \<Rightarrow> ([Attempt OpenAI], Inr v)
         | Inl e \<Rightarrow>
             if \<not> has_anthropic cfg
             then ([Attempt OpenAI, Failed OpenAI e], Inr evaluation_error_response)
             else evaluate_via_anthropic cfg a question answer tech_stack
                    [Attempt OpenAI, Failed OpenAI e])
      else evaluate_via_anthropic cfg a question answer tech_stack [])"

section \<open>The session and the stage controller (\<open>utils\<close>, \<open>app\<close>)\<close>

record session =
  chat_history :: "message list"
  interview_stage :: int
  candidate_info :: candidate_info
  technical_questions :: "string list"
  current_question_index :: nat
  evaluation_in_progress :: bool

text \<open>
  \<open>initialize_session_state\<close> on a fresh session. The cursor is only ever set to 0 and
  incremented, so it is a natural number.
\<close>

definition initialize_session_state :: session where
  "initialize_session_state =
     \<lparr>chat_history = [], interview_stage = 0, candidate_info = [],
      technical_questions = [], current_question_index = 0,
      evaluation_in_progress = False\<rparr>"

definition update_chat_history :: "string \<Rightarrow> string \<Rightarrow> session \<Rightarrow> session" where
  "update_chat_history r c s = s\<lparr>chat_history := chat_history s @ [\<lparr>role = r, content = c\<rparr>]\<rparr>"

text \<open>The exceptions the controller itself can raise, and one for a gateway call that raised.\<close>

datatype py_exn = KeyError string | TypeError | IndexError | GatewayRaised string

text \<open>The gateway calls a handler makes, with their arguments, in the order made.\<close>

datatype gateway_call =
    ChatCall "message list" int candidate_info
  | QuestionsCall pyval
  | EvalCall string string pyval

text \<open>
  What one handler leaves behind: the session as mutated up to the point where it returned
  or raised (the session store keeps the writes made before an exception), the gateway
  calls it made, and the exception when it raised.
\<close>

record step_result =
  after :: session
  calls :: "gateway_call list"
  raised :: "py_exn option"

text \<open>\<open>evaluation["response"] + " " + evaluation["follow_up"]\<close>, evaluated left to right.\<close>

definition json_getitem :: "json \<Rightarrow> string \<Rightarrow> py_exn + json" where
  "json_getitem v k =
     (case v of
        JObject kvs \<Rightarrow> (case map_of kvs k of None \<Rightarrow> Inl (KeyError k) | Some x \<Rightarrow> Inr x)
      | _ \<Rightarrow> Inl TypeError)"

definition assistant_text :: "json \<Rightarrow> py_exn + string" where
  "assistant_text evaluation =
     (case json_getitem evaluation ''response'' of
        Inl x \<Rightarrow> Inl x
      | Inr (JString r) \<Rightarrow>
          (case json_getitem evaluation ''follow_up'' of
             Inl x \<Rightarrow> Inl x
           | Inr (JString f) \<Rightarrow> Inr (r @ '' '' @ f)
           | Inr _ \<Rightarrow> Inl TypeError)
      | Inr _ \<Rightarrow> Inl TypeError)"

definition generic_discussion_prompt :: string where
  "generic_discussion_prompt = ''Let's discuss your technical experience. What projects have you worked on recently?''"

text \<open>A gateway reply appended as the assistant's message; shared by every branch that ends so.\<close>

definition chat_and_append :: "config \<Rightarrow> api \<Rightarrow> session \<Rightarrow> gateway_call list \<Rightarrow> (session \<Rightarrow> session) \<Rightarrow> step_result" where
  "chat_and_append cfg a s cs finish =
     (let c = ChatCall (chat_history s) (interview_stage s) (candidate_info s) in
      case snd (generate_chat_response cfg a (chat_history s) (interview_stage s) (candidate_info s)) of
        Inl e \<Rightarrow> \<lparr>after = s, calls = cs @ [c], raised = Some (GatewayRaised e)\<rparr>
      | Inr reply \<Rightarrow>
          \<lparr>after = finish (update_chat_history ''assistant'' reply s), calls = cs @ [c], raised = None\<rparr>)"

definition handle_user_response :: "config \<Rightarrow> api \<Rightarrow> string \<Rightarrow> session \<Rightarrow> step_result" where
  "handle_user_response cfg a user_input s0 =
     (let s = update_chat_history ''user'' user_input s0 in
      if interview_stage s = 1 then
        chat_and_append cfg a
          (s\<lparr>candidate_info := AList.update ''name'' (PStr user_input) (candidate_info s)\<rparr>) []
          (\<lambda>t. t\<lparr>interview_stage := 2\<rparr>)
      else if interview_stage s = 5 then
        (if technical_questions s = [] then
           (case map_of (candidate_info s) ''tech_stack'' of
              None \<Rightarrow> \<lparr>after = s, calls = [], raised = Some (KeyError ''tech_stack'')\<rparr>
            | Some tech \<Rightarrow>
                (case snd (generate_technical_questions cfg a tech) of
                   Inl e \<Rightarrow> \<lparr>after = s, calls = [QuestionsCall tech], raised = Some (GatewayRaised e)\<rparr>
                 | Inr questions \<Rightarrow>
                     (let s1 = s\<lparr>technical_questions :=
                                    filter (\<lambda>q. str_strip q \<noteq> []) (str_split CHR 0x0A questions),
                                  current_question_index := 0\<rparr>
                      in \<lparr>after =
                            (case technical_questions s1 of
                               first_question # _ \<Rightarrow> update_chat_history ''assistant'' first_question s1
                             | [] \<Rightarrow> update_chat_history ''assistant'' generic_discussion_prompt s1),
                          calls = [QuestionsCall tech], raised = None\<rparr>)))
         else if length (technical_questions s) \<le> current_question_index s then
           \<lparr>after = s, calls = [], raised = Some IndexError\<rparr>
         else
           (let current_question = technical_questions s ! current_question_index s in
            case map_of (candidate_info s) ''tech_stack'' of
              None \<Rightarrow> \<lparr>after = s, calls = [], raised = Some (KeyError ''tech_stack'')\<rparr>
            | Some tech \<Rightarrow>
                (let c = EvalCall current_question user_input tech in
                 case snd (evaluate_technical_response cfg a current_question user_input tech) of
                   Inl e \<Rightarrow> \<lparr>after = s, calls = [c], raised = Some (GatewayRaised e)\<rparr>
                 | Inr evaluation \<Rightarrow>
                     (case assistant_text evaluation of
                        Inl x \<Rightarrow> \<lparr>after = s, calls = [c], raised = Some x\<rparr>
                      | Inr assistant_response \<Rightarrow>
                          (let s1 = update_chat_history ''assistant'' assistant_response s;
                               s2 = s1\<lparr>current_question_index := current_question_index s1 + 1\<rparr>
                           in if length (technical_questions s2) \<le> current_question_index s2
                                 \<or> 5 \<le> current_question_index s2
                              then chat_and_append cfg a (s2\<lparr>interview_stage := 6\<rparr>) [c] (\<lambda>t. t)
                              else \<lparr>after = s2, calls = [c], raised = None\<rparr>)))))
      else chat_and_append cfg a s [] (\<lambda>t. t))"

text \<open>
  One run of the script of \<open>app\<close> on one action of the user. Only the widget of the
  current stage is drawn, so an action that belongs to another widget changes nothing.
\<close>

datatype ui_event =
    NoAction
  | ContactSubmit string string
  | ExperienceSubmit int string
  | TechStackSubmit "string list"
  | SendText string

definition initial_message :: string where
  "initial_message = ''Hello! I'm the TalentScout interview assistant. I'm here to learn about your skills and experience for potential tech positions. Let's start with your name.''"

definition unchanged :: "session \<Rightarrow> step_result" where
  "unchanged s = \<lparr>after = s, calls = [], raised = None\<rparr>"

definition script_run :: "config \<Rightarrow> api \<Rightarrow> ui_event \<Rightarrow> session \<Rightarrow> step_result" where
  "script_run cfg a ev s =
     (if length (chat_history s) = 0 then
        unchanged ((update_chat_history ''assistant'' initial_message s)\<lparr>interview_stage := 1\<rparr>)
      else if interview_stage s = 2 then
        (case ev of
           ContactSubmit contact_email contact_phone \<Rightarrow>
             (let contact_info = ''Email: '' @ contact_email @ '', Phone: '' @ contact_phone;
                  s1 = update_chat_history ''user'' contact_info s;
                  s2 = s1\<lparr>candidate_info := AList.update ''contact'' (PStr contact_info) (candidate_info s1)\<rparr>
              in chat_and_append cfg a s2 [] (\<lambda>t. t\<lparr>interview_stage := 3\<rparr>))
         | _ \<Rightarrow> unchanged s)
      else if interview_stage s = 3 then
        (case ev of
           ExperienceSubmit years_experience desired_position \<Rightarrow>
             (let exp_info = ''Experience: '' @ str_of_int years_experience
                               @ '' years, Desired position: '' @ desired_position;
                  s1 = update_chat_history ''user'' exp_info s;
                  s2 = s1\<lparr>candidate_info :=
                             AList.update ''position'' (PStr desired_position)
                               (AList.update ''experience'' (PInt years_experience) (candidate_info s1))\<rparr>
              in chat_and_append cfg a s2 [] (\<lambda>t. t\<lparr>interview_stage := 4\<rparr>))
         | _ \<Rightarrow> unchanged s)
      else if interview_stage s = 4 then
        (case ev of
           TechStackSubmit selected_techs \<Rightarrow>
             (if selected_techs \<noteq> [] then
                (let tech_info = ''Tech skills: '' @ str_join '', '' selected_techs;
                     s1 = update_chat_history ''user'' tech_info s;
                     s2 = s1\<lparr>candidate_info := AList.update ''tech_stack'' (PList selected_techs) (candidate_info s1)\<rparr>
                 in chat_and_append cfg a s2 [] (\<lambda>t. t\<lparr>interview_stage := 5\<rparr>))
              else unchanged s)
         | _ \<Rightarrow> unchanged s)
      else
        (case ev of
           SendText user_input \<Rightarrow>
             (if user_input \<noteq> [] then handle_user_response cfg a user_input s else unchanged s)
         | _ \<Rightarrow> unchanged s))"

text \<open>
  A session processes its inputs one after the other; each comes with what the providers
  would answer at that moment. \<open>run\<close> is the session after the inputs, \<open>run_calls\<close> the
  gateway calls made on the way.
\<close>

fun run :: "config \<Rightarrow> session \<Rightarrow> (api \<times> ui_event) list \<Rightarrow> session" where
  "run cfg s [] = s"
| "run cfg s ((a, ev) # rest) = run cfg (after (script_run cfg a ev s)) rest"

fun run_calls :: "config \<Rightarrow> session \<Rightarrow> (api \<times> ui_event) list \<Rightarrow> gateway_call list" where
  "run_calls cfg s [] = []"
| "run_calls cfg s ((a, ev) # rest) =
     calls (script_run cfg a ev s) @ run_calls cfg (after (script_run cfg a ev s)) rest"

section \<open>Notions used to state the properties\<close>

text \<open>
  A gateway operation fell back when the last line of its log is a failure or the report
  that no provider is available, and not an attempt that returned.
\<close>

definition fell_back :: "log_entry list \<Rightarrow> bool" where
  "fell_back lg =
     (case rev lg of
        [] \<Rightarrow> False
      | Attempt p # _ \<Rightarrow> False
      | Failed p e # _ \<Rightarrow> True
      | NoProvider # _ \<Rightarrow> True)"

text \<open>The evaluation fallback object as the specification gives it.\<close>

definition spec_evaluation_fallback :: json where
  "spec_evaluation_fallback =
     JObject
       [(''assessment'', JString ''Unable to evaluate response''),
        (''response'', JString ''Thank you for your answer. I'm having some technical difficulties with my evaluation system.''),
        (''follow_up'', JString ''Can you tell me more about your experience with this technology?'')]"

text \<open>The lines the controller keeps of the generated text: \<open>split\<close>, then the filter on \<open>strip\<close>.\<close>

definition question_lines :: "string \<Rightarrow> string list" where
  "question_lines questions = filter (\<lambda>q. str_strip q \<noteq> []) (str_split CHR 0x0A questions)"

text \<open>The evaluation calls among the gateway calls of a run.\<close>

fun is_eval_call :: "gateway_call \<Rightarrow> bool" where
  "is_eval_call (EvalCall q x t) = True"
| "is_eval_call (ChatCall h st info) = False"
| "is_eval_call (QuestionsCall t) = False"

text \<open>
  What holds of every session the script can reach: before the welcome message nothing
  has been written; afterwards the stage is between 1 and 6, the question list and the
  cursor are untouched and tech\_stack is unset before stage 5, and from stage 5 on
  tech\_stack is a non-empty list and the cursor is within the list and the bound of 5
  (strictly while the assessment is running).
\<close>

definition session_inv :: "session \<Rightarrow> bool" where
  "session_inv s =
     (if chat_history s = [] then s = initialize_session_state
      else 1 \<le> interview_stage s \<and> interview_stage s \<le> 6 \<and>
        (if interview_stage s < 5
         then technical_questions s = [] \<and> current_question_index s = 0 \<and>
              map_of (candidate_info s) ''tech_stack'' = None
         else (\<exists>ts. map_of (candidate_info s) ''tech_stack'' = Some (PList ts) \<and> ts \<noteq> []) \<and>
              (if technical_questions s = [] then current_question_index s = 0
               else if interview_stage s = 5
                 then current_question_index s < min (length (technical_questions s)) 5
               else current_question_index s \<le> min (length (technical_questions s)) 5)))"

text \<open>
  The fallback discipline of one gateway operation, as the specification words it. \<open>P\<close>
  and \<open>S\<close> are what the primary (OpenAI) and the secondary (Anthropic) helper do on the
  request, \<open>G\<close> is the log and outcome of the operation: the primary's value is returned
  when it succeeds; the secondary's when the primary raised and the secondary succeeds, or
  when only the secondary is configured; the primary is the first provider attempted and
  the secondary is attempted only after the primary raised or when the primary is not
  configured; the operation falls back exactly when every configured provider raises, and
  then returns one of its two fallback values; no exception comes out.
\<close>

definition fallback_chain_ok ::
    "config \<Rightarrow> (string + 'a) \<Rightarrow> (string + 'a) \<Rightarrow> (string \<Rightarrow> 'a) \<Rightarrow> 'a
      \<Rightarrow> log_entry list \<times> (string + 'a) \<Rightarrow> bool" where
  "fallback_chain_ok cfg P S on_error unavailable G =
     ((\<forall>v. has_openai cfg \<and> P = Inr v \<longrightarrow> G = ([Attempt OpenAI], Inr v)) \<and>
      (\<forall>e v. has_openai cfg \<and> P = Inl e \<and> has_anthropic cfg \<and> S = Inr v \<longrightarrow>
          G = ([Attempt OpenAI, Failed OpenAI e, Attempt Anthropic], Inr v)) \<and>
      (\<forall>v. \<not> has_openai cfg \<and> has_anthropic cfg \<and> S = Inr v \<longrightarrow>
          G = ([Attempt Anthropic], Inr v)) \<and>
      (has_openai cfg \<longrightarrow> (\<exists>rest. fst G = Attempt OpenAI # rest)) \<and>
      (Attempt Anthropic \<in> set (fst G) \<and> has_openai cfg \<longrightarrow> isl P) \<and>
      (fell_back (fst G) = ((has_openai cfg \<longrightarrow> isl P) \<and> (has_anthropic cfg \<longrightarrow> isl S))) \<and>
      (fell_back (fst G) \<longrightarrow> snd G = Inr unavailable \<or> (\<exists>e. snd G = Inr (on_error e))) \<and>
      (\<exists>v. snd G = Inr v))"

text \<open>
  The seven ways through one gateway operation, by the two flags and the two helpers'
  outcomes; each operation is shown below to follow this table.
\<close>

definition chain_result ::
    "bool \<Rightarrow> bool \<Rightarrow> (string + 'a) \<Rightarrow> (string + 'a) \<Rightarrow> (string \<Rightarrow> 'a) \<Rightarrow> 'a
      \<Rightarrow> log_entry list \<times> (string + 'a)" where
  "chain_result p s P S on_error unavailable =
     (case (p, s, P, S) of
        (True, _, Inr v, _) \<Rightarrow> ([Attempt OpenAI], Inr v)
      | (True, False, Inl e, _) \<Rightarrow> ([Attempt OpenAI, Failed OpenAI e], Inr (on_error e))
      | (True, True, Inl e, Inr v) \<Rightarrow> ([Attempt OpenAI, Failed OpenAI e, Attempt Anthropic], Inr v)
      | (True, True, Inl e, Inl e') \<Rightarrow>
          ([Attempt OpenAI, Failed OpenAI e, Attempt Anthropic, Failed Anthropic e'], Inr (on_error e'))
      | (False, True, _, Inr v) \<Rightarrow> ([Attempt Anthropic], Inr v)
      | (False, True, _, Inl e') \<Rightarrow> ([Attempt Anthropic, Failed Anthropic e'], Inr (on_error e'))
      | (False, False, _, _) \<Rightarrow> ([NoProvider], Inr unavailable))"

text \<open>
  Fail-soft, for one gateway operation: its outcome \<open>r\<close> is a returned value, and that
  value is the one a configured helper returned, or the error reply built from the text
  of an exception a configured helper raised, or, with no provider configured, the
  operation's fixed reply for that case. \<open>P\<close> and \<open>S\<close> are what the primary and the
  secondary helper do on the request.
\<close>

definition fail_soft ::
    "config \<Rightarrow> (string + 'a) \<Rightarrow> (string + 'a) \<Rightarrow> (string \<Rightarrow> 'a) \<Rightarrow> 'a \<Rightarrow> (string + 'a) \<Rightarrow> bool" where
  "fail_soft cfg P S on_error unavailable r =
     (\<exists>v. r = Inr v \<and>
        ((has_openai cfg \<and> P = Inr v) \<or>
         (has_anthropic cfg \<and> S = Inr v) \<or>
         (\<exists>e. ((has_openai cfg \<and> P = Inl e) \<or> (has_anthropic cfg \<and> S = Inl e)) \<and> v = on_error e) \<or>
         (v = unavailable \<and> \<not> has_openai cfg \<and> \<not> has_anthropic cfg)))"



subsection \<open>Example environments\<close>

text \<open>
  The texts of the examples, and a decoder that gives on each of them what \<open>json.loads\<close>
  gives; the examples apply it to nothing else.
\<close>

definition example_evaluation_text :: string where
  \<open>example_evaluation_text = ''{"assessment": "ok", "response": "Good.", "follow_up": "Why?"}''\<close>

definition example_evaluation :: json where
  "example_evaluation =
     JObject [(''assessment'', JString ''ok''), (''response'', JString ''Good.''),
              (''follow_up'', JString ''Why?'')]"

definition example_body :: string where
  "example_body = ''\<newline>'' @ example_evaluation_text @ ''\<newline>''"

definition example_fenced_text :: string where
  "example_fenced_text = fence @ ''json'' @ example_body @ fence"

definition example_plain_text :: string where
  "example_plain_text = ''The answer is fine.''"

definition example_backtick_text :: string where
  \<open>example_backtick_text = ''{"assessment": "ok", "response": "Use ```x``` here.", "follow_up": "Why?"}''\<close>

definition example_backtick_evaluation :: json where
  "example_backtick_evaluation =
     JObject [(''assessment'', JString ''ok''),
              (''response'', JString (''Use '' @ fence @ ''x'' @ fence @ '' here.'')),
              (''follow_up'', JString ''Why?'')]"

definition example_backtick_body :: string where
  "example_backtick_body = ''\<newline>'' @ example_backtick_text @ ''\<newline>''"

definition example_backtick_fenced_text :: string where
  "example_backtick_fenced_text = fence @ ''json'' @ example_backtick_body @ fence"

definition example_backtick_cleaned_text :: string where
  \<open>example_backtick_cleaned_text = ''{"assessment": "ok", "response": "Use x here.", "follow_up": "Why?"}''\<close>

definition example_backtick_stripped :: json where
  "example_backtick_stripped =
     JObject [(''assessment'', JString ''ok''), (''response'', JString ''Use x here.''),
              (''follow_up'', JString ''Why?'')]"

definition example_unshaped_text :: string where
  \<open>example_unshaped_text = ''{"foo": 1}''\<close>

definition example_unshaped :: json where
  "example_unshaped = JObject [(''foo'', JNumber ''1'')]"

definition example_loads :: "string \<Rightarrow> loads_result" where
  "example_loads s =
     (if s = example_evaluation_text then Loaded example_evaluation
      else if s = example_backtick_text then Loaded example_backtick_evaluation
      else if s = example_backtick_cleaned_text then Loaded example_backtick_stripped
      else if s = example_unshaped_text then Loaded example_unshaped
      else JSONDecodeError)"

definition cfg_both :: config where
  "cfg_both =
     \<lparr>has_openai = True, has_anthropic = True, openai_client = True, anthropic_client = True,
      json_loads = example_loads\<rparr>"

definition cfg_none :: config where
  "cfg_none =
     \<lparr>has_openai = False, has_anthropic = False, openai_client = False, anthropic_client = False,
      json_loads = example_loads\<rparr>"

definition cfg_openai_only :: config where
  "cfg_openai_only =
     \<lparr>has_openai = True, has_anthropic = False, openai_client = True, anthropic_client = False,
      json_loads = example_loads\<rparr>"

definition cfg_anthropic_only :: config where
  "cfg_anthropic_only =
     \<lparr>has_openai = False, has_anthropic = True, openai_client = False, anthropic_client = True,
      json_loads = example_loads\<rparr>"

definition example_questions_text :: string where
  "example_questions_text = ''1. What is a list?\<newline>2. What is a dict?''"

definition example_reply :: "request \<Rightarrow> string" where
  "example_reply r =
     (case r of
        ChatCompletion sys msgs \<Rightarrow> ''Thank you.''
      | QuestionsPrompt tech_list \<Rightarrow> example_questions_text
      | EvaluationPrompt tech_list q ans \<Rightarrow> example_evaluation_text)"

definition api_down :: api where
  "api_down = \<lparr>openai_create = (\<lambda>r. Inl ''timeout''), anthropic_create = (\<lambda>r. Inl ''overloaded'')\<rparr>"

definition api_primary_down :: api where
  "api_primary_down =
     \<lparr>openai_create = (\<lambda>r. Inl ''timeout''), anthropic_create = (\<lambda>r. Inr (example_reply r))\<rparr>"

definition api_ok :: api where
  "api_ok =
     \<lparr>openai_create = (\<lambda>r. Inr (example_reply r)), anthropic_create = (\<lambda>r. Inr (example_reply r))\<rparr>"

definition api_fenced :: api where
  "api_fenced =
     \<lparr>openai_create = (\<lambda>r. Inr example_fenced_text),
      anthropic_create = (\<lambda>r. Inr example_fenced_text)\<rparr>"

definition api_not_json :: api where
  "api_not_json =
     \<lparr>openai_create = (\<lambda>r. Inr example_plain_text),
      anthropic_create = (\<lambda>r. Inr example_plain_text)\<rparr>"

definition api_fenced_backtick :: api where
  "api_fenced_backtick =
     \<lparr>openai_create = (\<lambda>r. Inl ''timeout''),
      anthropic_create = (\<lambda>r. Inr example_backtick_fenced_text)\<rparr>"

definition api_unshaped :: api where
  "api_unshaped =
     \<lparr>openai_create = (\<lambda>r. Inr example_unshaped_text),
      anthropic_create = (\<lambda>r. Inr example_unshaped_text)\<rparr>"



definition example_info :: candidate_info where
  "example_info = [(''name'', PStr ''Jane Doe''), (''experience'', PInt 3), (''tech_stack'', PList [''Python'', ''Go''])]"

text \<open>The actions of a candidate up to the choice of technologies.\<close>

definition example_intake :: "ui_event list" where
  "example_intake =
     [NoAction, SendText ''Jane Doe'', ContactSubmit ''a@b.com'' ''555-0100'',
      ExperienceSubmit 3 ''Backend Engineer'', TechStackSubmit [''Python'', ''Go'']]"

text \<open>
  A whole interview with no provider configured: the intake, a message that starts the
  assessment, and one answer.
\<close>

definition example_interview :: "(api \<times> ui_event) list" where
  "example_interview =
     map (Pair api_down) (example_intake @ [SendText ''ready'', SendText ''I use both daily.''])"

text \<open>The same candidate up to the experience form, and up to the choice of technologies.\<close>

definition example_before_tech :: "(api \<times> ui_event) list" where
  "example_before_tech = map (Pair api_down) (take 4 example_intake)"

definition example_after_tech :: "(api \<times> ui_event) list" where
  "example_after_tech = map (Pair api_down) example_intake"

text \<open>
  The session of the example candidate after the choice of technologies, with only the
  primary provider configured.
\<close>

definition example_assessment_start :: session where
  "example_assessment_start =
     run cfg_openai_only initialize_session_state (map (Pair api_ok) example_intake)"

definition example_tech :: pyval where
  "example_tech = PList [''Python'', ''Go'']"

text \<open>
  The assessment of the example candidate, where the provider's reply to the evaluation of
  the first answer is an object without the requested fields, and the candidate answers
  again.
\<close>

definition example_retry :: "(api \<times> ui_event) list" where
  "example_retry =
     [(api_ok, SendText ''ready''),
      (api_unshaped, SendText ''A list is ordered.''),
      (api_ok, SendText ''It is a sequence.'')]"

section \<open>Properties of the gateway\<close>

lemmas gateway_defs =
  generate_chat_response_def chat_via_anthropic_def
  generate_technical_questions_def questions_via_anthropic_def
  evaluate_technical_response_def evaluate_via_anthropic_def

subsection \<open>Each operation follows the table \<open>chain_result\<close>\<close>

lemma chat_chain_result:
  "generate_chat_response cfg a h st info =
     chain_result (has_openai cfg) (has_anthropic cfg)
       (openai_generate_chat_response cfg a h st info)
       (anthropic_generate_chat_response cfg a h st info)
       chat_error_reply chat_unavailable_reply"
  by (cases "openai_generate_chat_response cfg a h st info";
      cases "anthropic_generate_chat_response cfg a h st info";
      cases "has_openai cfg"; cases "has_anthropic cfg";
      simp add: generate_chat_response_def chat_via_anthropic_def chain_result_def)

lemma questions_chain_result:
  "generate_technical_questions cfg a tech =
     chain_result (has_openai cfg) (has_anthropic cfg)
       (openai_generate_technical_questions cfg a tech)
       (anthropic_generate_technical_questions cfg a tech)
       questions_error_reply questions_unavailable_reply"
  by (cases "openai_generate_technical_questions cfg a tech";
      cases "anthropic_generate_technical_questions cfg a tech";
      cases "has_openai cfg"; cases "has_anthropic cfg";
      simp add: generate_technical_questions_def questions_via_anthropic_def chain_result_def)

lemma evaluate_chain_result:
  "evaluate_technical_response cfg a q ans tech =
     chain_result (has_openai cfg) (has_anthropic cfg)
       (openai_evaluate_technical_response cfg a q ans tech)
       (anthropic_evaluate_technical_response cfg a q ans tech)
       (\<lambda>e. evaluation_error_response) evaluation_unavailable_response"
  by (cases "openai_evaluate_technical_response cfg a q ans tech";
      cases "anthropic_evaluate_technical_response cfg a q ans tech";
      cases "has_openai cfg"; cases "has_anthropic cfg";
      simp add: evaluate_technical_response_def evaluate_via_anthropic_def chain_result_def)

lemma chain_result_returns:
  "\<exists>v. snd (chain_result p s P S on_error unavailable) = Inr v"
  by (cases P; cases S; cases p; cases s; simp add: chain_result_def)

lemma chat_returns: "\<exists>v. snd (generate_chat_response cfg a h st info) = Inr v"
  by (simp only: chat_chain_result chain_result_returns)

lemma questions_returns: "\<exists>v. snd (generate_technical_questions cfg a tech) = Inr v"
  by (simp only: questions_chain_result chain_result_returns)

lemma evaluate_returns: "\<exists>v. snd (evaluate_technical_response cfg a q ans tech) = Inr v"
  by (simp only: evaluate_chain_result chain_result_returns)

lemma chain_result_fail_soft:
  "fail_soft cfg P S on_error unavailable
     (snd (chain_result (has_openai cfg) (has_anthropic cfg) P S on_error unavailable))"
  by (cases P; cases S; cases "has_openai cfg"; cases "has_anthropic cfg";
      simp add: fail_soft_def chain_result_def; blast?)

lemma chain_result_ok:
  "fallback_chain_ok cfg P S on_error unavailable
     (chain_result (has_openai cfg) (has_anthropic cfg) P S on_error unavailable)"
  by (cases P; cases S; cases "has_openai cfg"; cases "has_anthropic cfg";
      simp add: fallback_chain_ok_def chain_result_def fell_back_def; blast?)

text \<open>
  Claim C1. Each of the three public operations of the gateway,
  \<open>generate_chat_response\<close>, \<open>generate_technical_questions\<close> and
  \<open>evaluate_technical_response\<close>, is total and fail-soft: whatever the configuration of
  the two providers (neither, one of them, both), whether their clients were built and
  whatever each provider call returns or raises, the operation raises nothing and returns
  a value, which is the value a configured provider's helper returned, or the operation's
  error reply for an exception a configured helper raised, or, with no provider
  configured, the operation's fixed reply for that case.
\<close>

theorem gateway_total:
  "fail_soft cfg
     (openai_generate_chat_response cfg a h st info)
     (anthropic_generate_chat_response cfg a h st info)
     chat_error_reply chat_unavailable_reply
     (snd (generate_chat_response cfg a h st info)) \<and>
   fail_soft cfg
     (openai_generate_technical_questions cfg a tech)
     (anthropic_generate_technical_questions cfg a tech)
     questions_error_reply questions_unavailable_reply
     (snd (generate_technical_questions cfg a tech)) \<and>
   fail_soft cfg
     (openai_evaluate_technical_response cfg a q ans tech)
     (anthropic_evaluate_technical_response cfg a q ans tech)
     (\<lambda>e. evaluation_error_response) evaluation_unavailable_response
     (snd (evaluate_technical_response cfg a q ans tech))"
  by (simp only: chat_chain_result questions_chain_result evaluate_chain_result
        chain_result_fail_soft)

subsection \<open>Facts about the examples\<close>

lemma cfg_both_flags:
  "has_openai cfg_both" "has_anthropic cfg_both" "openai_client cfg_both"
  "anthropic_client cfg_both" "json_loads cfg_both = example_loads"
  by (simp_all add: cfg_both_def)

lemma cfg_none_flags:
  "\<not> has_openai cfg_none" "\<not> has_anthropic cfg_none" "json_loads cfg_none = example_loads"
  by (simp_all add: cfg_none_def)

lemma cfg_openai_only_flags:
  "has_openai cfg_openai_only" "\<not> has_anthropic cfg_openai_only" "openai_client cfg_openai_only"
  "json_loads cfg_openai_only = example_loads"
  by (simp_all add: cfg_openai_only_def)

lemma cfg_anthropic_only_flags:
  "\<not> has_openai cfg_anthropic_only" "has_anthropic cfg_anthropic_only"
  "anthropic_client cfg_anthropic_only" "json_loads cfg_anthropic_only = example_loads"
  by (simp_all add: cfg_anthropic_only_def)

lemma join_python: "join_tech_stack (PList [''Python'']) = Inr ''Python''"
  by (simp add: join_tech_stack_def)

lemma example_parse: "example_loads example_evaluation_text = Loaded example_evaluation"
  by (simp add: example_loads_def)

lemma example_clean: "clean_response example_evaluation_text = example_evaluation_text"
  unfolding example_evaluation_text_def clean_response_def fence_def by code_simp

theorem gateway_total_witness:
  "snd (generate_chat_response cfg_none api_down [] 1 []) = Inr chat_unavailable_reply \<and>
   snd (generate_technical_questions cfg_none api_down (PList [''Python'']))
     = Inr questions_unavailable_reply \<and>
   snd (evaluate_technical_response cfg_none api_down ''Q'' ''A'' (PList [''Python'']))
     = Inr evaluation_unavailable_response"
  using gateway_total[of cfg_none api_down "[]" 1 "[]" "PList [''Python'']" "''Q''" "''A''"]
    cfg_none_flags
  by (auto simp: fail_soft_def)

text \<open>
  Claim C6. In each of the three gateway operations the primary provider (OpenAI) is
  attempted before the secondary (Anthropic). When the primary is configured and raises
  and the secondary is configured and succeeds, the value returned is the secondary's;
  the operation falls back to its fixed reply only when every configured provider raises;
  and in no case does an exception come out of the operation.
\<close>

theorem provider_order:
  "fallback_chain_ok cfg
     (openai_generate_chat_response cfg a h st info)
     (anthropic_generate_chat_response cfg a h st info)
     chat_error_reply chat_unavailable_reply
     (generate_chat_response cfg a h st info) \<and>
   fallback_chain_ok cfg
     (openai_generate_technical_questions cfg a tech)
     (anthropic_generate_technical_questions cfg a tech)
     questions_error_reply questions_unavailable_reply
     (generate_technical_questions cfg a tech) \<and>
   fallback_chain_ok cfg
     (openai_evaluate_technical_response cfg a q ans tech)
     (anthropic_evaluate_technical_response cfg a q ans tech)
     (\<lambda>e. evaluation_error_response) evaluation_unavailable_response
     (evaluate_technical_response cfg a q ans tech)"
  by (simp only: chat_chain_result questions_chain_result evaluate_chain_result chain_result_ok)

theorem provider_order_witness:
  "generate_chat_response cfg_both api_primary_down [] 1 [] =
     ([Attempt OpenAI, Failed OpenAI ''timeout'', Attempt Anthropic], Inr ''Thank you.'') \<and>
   evaluate_technical_response cfg_both api_primary_down ''Q'' ''A'' (PList [''Python'']) =
     ([Attempt OpenAI, Failed OpenAI ''timeout'', Attempt Anthropic], Inr example_evaluation)"
proof -
  have p1: "openai_generate_chat_response cfg_both api_primary_down [] 1 [] = Inl ''timeout''"
    by (simp add: openai_generate_chat_response_def cfg_both_flags api_primary_down_def)
  have s1: "anthropic_generate_chat_response cfg_both api_primary_down [] 1 [] = Inr ''Thank you.''"
    by (simp add: anthropic_generate_chat_response_def cfg_both_flags api_primary_down_def example_reply_def)
  have p3: "openai_evaluate_technical_response cfg_both api_primary_down ''Q'' ''A'' (PList [''Python'']) = Inl ''timeout''"
    by (simp add: openai_evaluate_technical_response_def cfg_both_flags api_primary_down_def join_python)
  have s3: "anthropic_evaluate_technical_response cfg_both api_primary_down ''Q'' ''A'' (PList [''Python'']) = Inr example_evaluation"
    by (simp add: anthropic_evaluate_technical_response_def cfg_both_flags api_primary_down_def
          join_python example_reply_def example_clean example_parse)
  have "fallback_chain_ok cfg_both
     (openai_generate_chat_response cfg_both api_primary_down [] 1 [])
     (anthropic_generate_chat_response cfg_both api_primary_down [] 1 [])
     chat_error_reply chat_unavailable_reply
     (generate_chat_response cfg_both api_primary_down [] 1 [])"
   and "fallback_chain_ok cfg_both
     (openai_evaluate_technical_response cfg_both api_primary_down ''Q'' ''A'' (PList [''Python'']))
     (anthropic_evaluate_technical_response cfg_both api_primary_down ''Q'' ''A'' (PList [''Python'']))
     (\<lambda>e. evaluation_error_response) evaluation_unavailable_response
     (evaluate_technical_response cfg_both api_primary_down ''Q'' ''A'' (PList [''Python'']))"
    using provider_order[of cfg_both api_primary_down "[]" 1 "[]" "PList [''Python'']" "''Q''" "''A''"]
    by blast+
  then show ?thesis
    unfolding fallback_chain_ok_def p1 s1 p3 s3 using cfg_both_flags by blast
qed

section \<open>Parsing the evaluation reply\<close>

lemma not_sublist_ConsD: "\<not> sublist p (c # cs) \<Longrightarrow> \<not> sublist p cs \<and> \<not> prefix p (c # cs)"
  by (auto simp: sublist_Cons_right)

lemma replace_fence_tail:
  "\<not> sublist fence body \<Longrightarrow> str_replace fence [] (body @ fence) = body"
proof (induction body)
  case Nil
  show ?case by (simp add: fence_def)
next
  case (Cons c cs)
  have ns: "\<not> sublist fence cs" and np: "\<not> prefix fence (c # cs)"
    using not_sublist_ConsD[OF Cons.prems] by simp_all
  have ih: "str_replace fence [] (cs @ fence) = cs" using Cons.IH ns by simp
  show ?case
  proof (cases "prefix fence (c # cs @ fence)")
    case False
    then show ?thesis using ih by simp
  next
    case True
    then have c: "c = CHR 0x60" by (auto simp add: fence_def)
    show ?thesis
    proof (cases cs)
      case Nil
      then show ?thesis using c by (simp add: fence_def)
    next
      case (Cons x xs)
      note c1 = this
      from True c1 have x: "x = CHR 0x60" by (auto simp add: fence_def)
      show ?thesis
      proof (cases xs)
        case Nil
        with c1 c x show ?thesis by (simp add: fence_def)
      next
        case (Cons y ys)
        with True c1 have "y = CHR 0x60" by (auto simp add: fence_def)
        with c x c1 Cons have "prefix fence (c # cs)" by (simp add: fence_def)
        with np show ?thesis by simp
      qed
    qed
  qed
qed

lemma replace_fence_json_tail:
  "\<not> sublist fence body \<Longrightarrow> str_replace (fence @ ''json'') [] (body @ fence) = body @ fence"
proof (induction body)
  case Nil
  show ?case by (simp add: fence_def)
next
  case (Cons c cs)
  have ns: "\<not> sublist fence cs" and np: "\<not> prefix fence (c # cs)"
    using not_sublist_ConsD[OF Cons.prems] by simp_all
  have ih: "str_replace (fence @ ''json'') [] (cs @ fence) = cs @ fence" using Cons.IH ns by simp
  have "\<not> prefix (fence @ ''json'') (c # cs @ fence)"
  proof
    assume p: "prefix (fence @ ''json'') (c # cs @ fence)"
    show False
    proof (cases cs)
      case Nil
      with p show False by (simp add: fence_def)
    next
      case (Cons x xs)
      note c1 = this
      show False
      proof (cases xs)
        case Nil
        with p c1 show False by (simp add: fence_def)
      next
        case (Cons y ys)
        with p c1 have "c = CHR 0x60 \<and> x = CHR 0x60 \<and> y = CHR 0x60" by (auto simp add: fence_def)
        with c1 Cons have "prefix fence (c # cs)" by (simp add: fence_def)
        with np show False by simp
      qed
    qed
  qed
  then show ?case using ih by simp
qed

lemma replace_fence_json_head:
  "str_replace (fence @ ''json'') [] (fence @ ''json'' @ rest) = str_replace (fence @ ''json'') [] rest"
  by (simp add: fence_def)

lemma clean_response_fenced:
  assumes "\<not> sublist fence body"
  shows "clean_response (fence @ ''json'' @ body @ fence) = str_strip body"
  unfolding clean_response_def replace_fence_json_head
    replace_fence_json_tail[OF assms] replace_fence_tail[OF assms] ..

lemma openai_evaluate_parsed:
  assumes "openai_client cfg" "join_tech_stack tech = Inr tech_list"
      "openai_create a (EvaluationPrompt tech_list q ans) = Inr reply"
  shows "openai_evaluate_technical_response cfg a q ans tech =
           (case json_loads cfg reply of
              Loaded v \<Rightarrow> Inr v
            | JSONDecodeError \<Rightarrow> Inr helper_parse_fallback
            | LoadsRaised e \<Rightarrow> Inl e)"
  using assms by (simp add: openai_evaluate_technical_response_def)

lemma anthropic_evaluate_parsed:
  assumes "anthropic_client cfg" "join_tech_stack tech = Inr tech_list"
      "anthropic_create a (EvaluationPrompt tech_list q ans) = Inr reply"
  shows "anthropic_evaluate_technical_response cfg a q ans tech =
           (case json_loads cfg (clean_response reply) of
              Loaded v \<Rightarrow> Inr v
            | JSONDecodeError \<Rightarrow> Inr helper_parse_fallback
            | LoadsRaised e \<Rightarrow> Inl e)"
  using assms by (simp add: anthropic_evaluate_technical_response_def)

lemma evaluate_primary_answers:
  assumes "has_openai cfg" "openai_evaluate_technical_response cfg a q ans tech = Inr v"
  shows "snd (evaluate_technical_response cfg a q ans tech) = Inr v"
  using assms by (cases "has_anthropic cfg"; simp add: evaluate_chain_result chain_result_def)

lemma evaluate_secondary_answers:
  assumes "\<not> has_openai cfg \<or> isl (openai_evaluate_technical_response cfg a q ans tech)"
      "has_anthropic cfg" "anthropic_evaluate_technical_response cfg a q ans tech = Inr v"
  shows "snd (evaluate_technical_response cfg a q ans tech) = Inr v"
  using assms
  by (cases "openai_evaluate_technical_response cfg a q ans tech"; cases "has_openai cfg";
      simp add: evaluate_chain_result chain_result_def)

text \<open>
  Claim C4, as amended. When the secondary provider (Anthropic) answers the evaluation
  request with a text that opens with the fence and \<open>json\<close> and closes with the fence,
  the payload between them holds no run of three backticks and, once stripped,
  \<open>json.loads\<close> decodes it to the value \<open>v\<close>, then \<open>evaluate_technical_response\<close>
  returns \<open>v\<close> exactly. The reply of the primary provider (OpenAI) is decoded as it is,
  with no fence removed: the operation returns the value \<open>json.loads\<close> gives on the
  reply, and the helper's own fallback object when \<open>json.loads\<close> raises
  \<open>JSONDecodeError\<close> on it.
\<close>

theorem fenced_evaluation_parsed:
  "(has_anthropic cfg \<and> anthropic_client cfg \<and>
    (\<not> has_openai cfg \<or> isl (openai_evaluate_technical_response cfg a q ans tech)) \<and>
    join_tech_stack tech = Inr tech_list \<and>
    anthropic_create a (EvaluationPrompt tech_list q ans) = Inr (fence @ ''json'' @ body @ fence) \<and>
    \<not> sublist fence body \<and> json_loads cfg (str_strip body) = Loaded v
    \<longrightarrow> snd (evaluate_technical_response cfg a q ans tech) = Inr v) \<and>
   (has_openai cfg \<and> openai_client cfg \<and> join_tech_stack tech = Inr tech_list \<and>
    openai_create a (EvaluationPrompt tech_list q ans) = Inr reply \<and>
    json_loads cfg reply = Loaded w
    \<longrightarrow> snd (evaluate_technical_response cfg a q ans tech) = Inr w) \<and>
   (has_openai cfg \<and> openai_client cfg \<and> join_tech_stack tech = Inr tech_list \<and>
    openai_create a (EvaluationPrompt tech_list q ans) = Inr reply \<and>
    json_loads cfg reply = JSONDecodeError
    \<longrightarrow> snd (evaluate_technical_response cfg a q ans tech) = Inr helper_parse_fallback)"
proof (intro conjI impI)
  assume h: "has_anthropic cfg \<and> anthropic_client cfg \<and>
    (\<not> has_openai cfg \<or> isl (openai_evaluate_technical_response cfg a q ans tech)) \<and>
    join_tech_stack tech = Inr tech_list \<and>
    anthropic_create a (EvaluationPrompt tech_list q ans) = Inr (fence @ ''json'' @ body @ fence) \<and>
    \<not> sublist fence body \<and> json_loads cfg (str_strip body) = Loaded v"
  have cr: "clean_response (fence @ ''json'' @ body @ fence) = str_strip body"
    using h clean_response_fenced by blast
  have "anthropic_evaluate_technical_response cfg a q ans tech =
      (case json_loads cfg (clean_response (fence @ ''json'' @ body @ fence)) of
         Loaded v \<Rightarrow> Inr v
       | JSONDecodeError \<Rightarrow> Inr helper_parse_fallback
       | LoadsRaised e \<Rightarrow> Inl e)"
    using h anthropic_evaluate_parsed by blast
  then have "anthropic_evaluate_technical_response cfg a q ans tech = Inr v"
    unfolding cr using h by simp
  with h show "snd (evaluate_technical_response cfg a q ans tech) = Inr v"
    using evaluate_secondary_answers by blast
next
  assume h: "has_openai cfg \<and> openai_client cfg \<and> join_tech_stack tech = Inr tech_list \<and>
    openai_create a (EvaluationPrompt tech_list q ans) = Inr reply \<and>
    json_loads cfg reply = Loaded w"
  then have "openai_evaluate_technical_response cfg a q ans tech = Inr w"
    using openai_evaluate_parsed[of cfg tech tech_list a q ans reply] by simp
  with h show "snd (evaluate_technical_response cfg a q ans tech) = Inr w"
    using evaluate_primary_answers by blast
next
  assume h: "has_openai cfg \<and> openai_client cfg \<and> join_tech_stack tech = Inr tech_list \<and>
    openai_create a (EvaluationPrompt tech_list q ans) = Inr reply \<and>
    json_loads cfg reply = JSONDecodeError"
  then have "openai_evaluate_technical_response cfg a q ans tech = Inr helper_parse_fallback"
    using openai_evaluate_parsed[of cfg tech tech_list a q ans reply] by simp
  with h show "snd (evaluate_technical_response cfg a q ans tech) = Inr helper_parse_fallback"
    using evaluate_primary_answers by blast
qed

lemma example_body_clear: "\<not> sublist fence example_body"
  unfolding example_body_def example_evaluation_text_def fence_def by code_simp

lemma example_body_strip: "str_strip example_body = example_evaluation_text"
  unfolding example_body_def example_evaluation_text_def by code_simp

lemma example_fenced_parse: "example_loads example_fenced_text = JSONDecodeError"
  unfolding example_loads_def example_fenced_text_def example_body_def example_evaluation_text_def
    example_backtick_text_def example_backtick_cleaned_text_def example_unshaped_text_def fence_def
  by code_simp

lemma example_plain_parse: "example_loads example_plain_text = JSONDecodeError"
  unfolding example_loads_def example_plain_text_def example_evaluation_text_def
    example_backtick_text_def example_backtick_cleaned_text_def example_unshaped_text_def
  by code_simp

lemma example_plain_clean: "clean_response example_plain_text = example_plain_text"
  unfolding example_plain_text_def clean_response_def fence_def by code_simp

lemma example_backtick_parse:
  "example_loads example_backtick_text = Loaded example_backtick_evaluation"
proof -
  have "example_backtick_text \<noteq> example_evaluation_text"
    unfolding example_backtick_text_def example_evaluation_text_def by code_simp
  then show ?thesis by (simp add: example_loads_def)
qed

lemma example_backtick_cleaned:
  "clean_response example_backtick_fenced_text = example_backtick_cleaned_text"
  unfolding example_backtick_fenced_text_def example_backtick_body_def example_backtick_text_def
    example_backtick_cleaned_text_def fence_def clean_response_def
  by code_simp

lemma example_backtick_cleaned_parse:
  "example_loads example_backtick_cleaned_text = Loaded example_backtick_stripped"
proof -
  have "example_backtick_cleaned_text \<noteq> example_evaluation_text"
       "example_backtick_cleaned_text \<noteq> example_backtick_text"
    unfolding example_backtick_cleaned_text_def example_backtick_text_def example_evaluation_text_def
    by code_simp+
  then show ?thesis by (simp add: example_loads_def)
qed

lemma example_unshaped_parse: "example_loads example_unshaped_text = Loaded example_unshaped"
proof -
  have "example_unshaped_text \<noteq> example_evaluation_text"
       "example_unshaped_text \<noteq> example_backtick_text"
       "example_unshaped_text \<noteq> example_backtick_cleaned_text"
    unfolding example_unshaped_text_def example_backtick_cleaned_text_def example_backtick_text_def
      example_evaluation_text_def
    by code_simp+
  then show ?thesis by (simp add: example_loads_def)
qed

theorem fenced_evaluation_parsed_witness:
  "snd (evaluate_technical_response cfg_anthropic_only api_fenced ''Q'' ''A'' (PList [''Python'']))
     = Inr example_evaluation \<and>
   snd (evaluate_technical_response cfg_openai_only api_ok ''Q'' ''A'' (PList [''Python'']))
     = Inr example_evaluation \<and>
   snd (evaluate_technical_response cfg_openai_only api_not_json ''Q'' ''A'' (PList [''Python'']))
     = Inr helper_parse_fallback"
proof -
  have 1: "has_anthropic cfg_anthropic_only \<and> anthropic_client cfg_anthropic_only \<and>
    (\<not> has_openai cfg_anthropic_only \<or>
       isl (openai_evaluate_technical_response cfg_anthropic_only api_fenced ''Q'' ''A'' (PList [''Python'']))) \<and>
    join_tech_stack (PList [''Python'']) = Inr ''Python'' \<and>
    anthropic_create api_fenced (EvaluationPrompt ''Python'' ''Q'' ''A'')
      = Inr (fence @ ''json'' @ example_body @ fence) \<and>
    \<not> sublist fence example_body \<and>
    json_loads cfg_anthropic_only (str_strip example_body) = Loaded example_evaluation"
    by (simp add: cfg_anthropic_only_flags api_fenced_def example_fenced_text_def join_python
          example_body_clear example_body_strip example_parse)
  have 2: "has_openai cfg_openai_only \<and> openai_client cfg_openai_only \<and>
    join_tech_stack (PList [''Python'']) = Inr ''Python'' \<and>
    openai_create api_ok (EvaluationPrompt ''Python'' ''Q'' ''A'') = Inr example_evaluation_text \<and>
    json_loads cfg_openai_only example_evaluation_text = Loaded example_evaluation"
    by (simp add: cfg_openai_only_flags api_ok_def example_reply_def join_python example_parse)
  have 3: "has_openai cfg_openai_only \<and> openai_client cfg_openai_only \<and>
    join_tech_stack (PList [''Python'']) = Inr ''Python'' \<and>
    openai_create api_not_json (EvaluationPrompt ''Python'' ''Q'' ''A'') = Inr example_plain_text \<and>
    json_loads cfg_openai_only example_plain_text = JSONDecodeError"
    by (simp add: cfg_openai_only_flags api_not_json_def join_python example_plain_parse)
  have a: "snd (evaluate_technical_response cfg_anthropic_only api_fenced ''Q'' ''A'' (PList [''Python'']))
     = Inr example_evaluation"
    using 1 fenced_evaluation_parsed[of cfg_anthropic_only api_fenced "''Q''" "''A''" "PList [''Python'']"
      "''Python''" example_body example_evaluation "[]" JNull]
    by blast
  have b: "snd (evaluate_technical_response cfg_openai_only api_ok ''Q'' ''A'' (PList [''Python'']))
     = Inr example_evaluation"
    using 2 fenced_evaluation_parsed[of cfg_openai_only api_ok "''Q''" "''A''" "PList [''Python'']"
      "''Python''" "[]" JNull example_evaluation_text example_evaluation]
    by blast
  have c: "snd (evaluate_technical_response cfg_openai_only api_not_json ''Q'' ''A'' (PList [''Python'']))
     = Inr helper_parse_fallback"
    using 3 fenced_evaluation_parsed[of cfg_openai_only api_not_json "''Q''" "''A''" "PList [''Python'']"
      "''Python''" "[]" JNull example_plain_text JNull]
    by blast
  from a b c show ?thesis by (intro conjI)
qed

text \<open>
  The claim as stated fails in two ways. A fenced reply from the primary provider is not
  unwrapped: on the fenced text \<open>json.loads\<close> raises \<open>JSONDecodeError\<close> and the helper's
  fallback object is returned in place of the fields of the inner JSON. And a fenced reply
  from the secondary provider whose payload has three backticks inside a field loses
  them, so the \<open>response\<close> field returned differs from the one of the inner JSON.
\<close>

theorem fenced_evaluation_counterexample:
  "example_loads example_evaluation_text = Loaded example_evaluation \<and>
   example_fenced_text = fence @ ''json'' @ example_body @ fence \<and>
   str_strip example_body = example_evaluation_text \<and>
   example_loads example_fenced_text = JSONDecodeError \<and>
   openai_create api_fenced (EvaluationPrompt ''Python'' ''Q'' ''A'') = Inr example_fenced_text \<and>
   snd (evaluate_technical_response cfg_openai_only api_fenced ''Q'' ''A'' (PList [''Python'']))
     = Inr helper_parse_fallback \<and>
   helper_parse_fallback \<noteq> example_evaluation \<and>
   example_loads example_backtick_text = Loaded example_backtick_evaluation \<and>
   example_backtick_fenced_text = fence @ ''json'' @ example_backtick_body @ fence \<and>
   str_strip example_backtick_body = example_backtick_text \<and>
   anthropic_create api_fenced_backtick (EvaluationPrompt ''Python'' ''Q'' ''A'')
     = Inr example_backtick_fenced_text \<and>
   clean_response example_backtick_fenced_text = example_backtick_cleaned_text \<and>
   example_loads example_backtick_cleaned_text = Loaded example_backtick_stripped \<and>
   snd (evaluate_technical_response cfg_both api_fenced_backtick ''Q'' ''A'' (PList [''Python'']))
     = Inr example_backtick_stripped \<and>
   example_backtick_stripped \<noteq> example_backtick_evaluation"
proof -
  have a: "openai_evaluate_technical_response cfg_openai_only api_fenced ''Q'' ''A'' (PList [''Python''])
      = Inr helper_parse_fallback"
    by (simp add: openai_evaluate_technical_response_def cfg_openai_only_flags api_fenced_def
          join_python example_fenced_parse)
  have b: "openai_evaluate_technical_response cfg_both api_fenced_backtick ''Q'' ''A'' (PList [''Python''])
      = Inl ''timeout''"
    by (simp add: openai_evaluate_technical_response_def cfg_both_flags api_fenced_backtick_def join_python)
  have c: "anthropic_evaluate_technical_response cfg_both api_fenced_backtick ''Q'' ''A'' (PList [''Python''])
      = Inr example_backtick_stripped"
    by (simp add: anthropic_evaluate_technical_response_def cfg_both_flags api_fenced_backtick_def
          join_python example_backtick_cleaned example_backtick_cleaned_parse)
  have d: "snd (evaluate_technical_response cfg_openai_only api_fenced ''Q'' ''A'' (PList [''Python'']))
     = Inr helper_parse_fallback"
    using a by (intro evaluate_primary_answers) (simp_all add: cfg_openai_only_flags)
  have e: "snd (evaluate_technical_response cfg_both api_fenced_backtick ''Q'' ''A'' (PList [''Python'']))
     = Inr example_backtick_stripped"
    using b c by (intro evaluate_secondary_answers) (simp_all add: cfg_both_flags)
  have f: "helper_parse_fallback \<noteq> example_evaluation"
    by (simp add: helper_parse_fallback_def example_evaluation_def)
  have g: "example_backtick_stripped \<noteq> example_backtick_evaluation"
    by (simp add: example_backtick_stripped_def example_backtick_evaluation_def fence_def)
  have h: "openai_create api_fenced (EvaluationPrompt ''Python'' ''Q'' ''A'') = Inr example_fenced_text"
    by (simp add: api_fenced_def)
  have i: "anthropic_create api_fenced_backtick (EvaluationPrompt ''Python'' ''Q'' ''A'')
     = Inr example_backtick_fenced_text"
    by (simp add: api_fenced_backtick_def)
  have j: "str_strip example_backtick_body = example_backtick_text"
    unfolding example_backtick_body_def example_backtick_text_def by code_simp
  show ?thesis
    using d e f g h i j example_parse example_backtick_parse example_body_strip
      example_fenced_text_def example_backtick_fenced_text_def example_fenced_parse
      example_backtick_cleaned example_backtick_cleaned_parse
    by (intro conjI) assumption+
qed

section \<open>The fallback objects of the evaluation\<close>

lemma evaluate_none_configured:
  assumes "\<not> has_openai cfg" "\<not> has_anthropic cfg"
  shows "snd (evaluate_technical_response cfg a q ans tech) = Inr evaluation_unavailable_response"
  using assms by (simp add: evaluate_chain_result chain_result_def)

lemma evaluate_all_raise:
  assumes "has_openai cfg \<or> has_anthropic cfg"
      "has_openai cfg \<longrightarrow> isl (openai_evaluate_technical_response cfg a q ans tech)"
      "has_anthropic cfg \<longrightarrow> isl (anthropic_evaluate_technical_response cfg a q ans tech)"
  shows "snd (evaluate_technical_response cfg a q ans tech) = Inr evaluation_error_response"
  using assms
  by (cases "openai_evaluate_technical_response cfg a q ans tech";
      cases "anthropic_evaluate_technical_response cfg a q ans tech";
      cases "has_openai cfg"; cases "has_anthropic cfg";
      simp add: evaluate_chain_result chain_result_def)

lemma spec_fallback_is_error_response: "evaluation_error_response = spec_evaluation_fallback"
  by (simp add: evaluation_error_response_def spec_evaluation_fallback_def)

lemma fallback_objects_have_fields:
  "assistant_text spec_evaluation_fallback =
     Inr ''Thank you for your answer. I'm having some technical difficulties with my evaluation system. Can you tell me more about your experience with this technology?''"
  "assistant_text evaluation_unavailable_response =
     Inr ''Thank you for your answer. I'm currently unable to access our evaluation system. Can you tell me more about your experience with this technology?''"
  "assistant_text helper_parse_fallback =
     Inr ''Thank you for your answer. Let's move on to the next question. Could you tell me more about your practical experience with this technology?''"
  by (simp_all add: assistant_text_def json_getitem_def spec_evaluation_fallback_def
        evaluation_unavailable_response_def helper_parse_fallback_def)

text \<open>
  Claim C5, as amended. \<open>evaluate_technical_response\<close> returns a fixed fallback object in
  three cases, and not the same object in each: the object of the specification when at
  least one provider is configured and the helper of every configured provider raises; the
  object whose \<open>response\<close> is "Thank you for your answer. I'm currently unable to access
  our evaluation system." when neither provider is configured; and the helper's own object
  ("Unable to properly evaluate the response", ...) when \<open>json.loads\<close> raises
  \<open>JSONDecodeError\<close> on the reply of the provider that answers. Each of the three objects
  has string fields \<open>response\<close> and \<open>follow_up\<close>. Nothing is claimed for a reply that
  \<open>json.loads\<close> decodes.
\<close>

theorem evaluation_fallbacks:
  "((has_openai cfg \<or> has_anthropic cfg) \<and>
    (has_openai cfg \<longrightarrow> isl (openai_evaluate_technical_response cfg a q ans tech)) \<and>
    (has_anthropic cfg \<longrightarrow> isl (anthropic_evaluate_technical_response cfg a q ans tech))
      \<longrightarrow> snd (evaluate_technical_response cfg a q ans tech) = Inr spec_evaluation_fallback) \<and>
   (\<not> has_openai cfg \<and> \<not> has_anthropic cfg
      \<longrightarrow> snd (evaluate_technical_response cfg a q ans tech) = Inr evaluation_unavailable_response) \<and>
   (has_openai cfg \<and> openai_client cfg \<and> join_tech_stack tech = Inr tech_list \<and>
    openai_create a (EvaluationPrompt tech_list q ans) = Inr reply \<and>
    json_loads cfg reply = JSONDecodeError
      \<longrightarrow> snd (evaluate_technical_response cfg a q ans tech) = Inr helper_parse_fallback) \<and>
   ((\<not> has_openai cfg \<or> isl (openai_evaluate_technical_response cfg a q ans tech)) \<and>
    has_anthropic cfg \<and> anthropic_client cfg \<and> join_tech_stack tech = Inr tech_list \<and>
    anthropic_create a (EvaluationPrompt tech_list q ans) = Inr reply \<and>
    json_loads cfg (clean_response reply) = JSONDecodeError
      \<longrightarrow> snd (evaluate_technical_response cfg a q ans tech) = Inr helper_parse_fallback) \<and>
   \<not> isl (assistant_text spec_evaluation_fallback) \<and>
   \<not> isl (assistant_text evaluation_unavailable_response) \<and>
   \<not> isl (assistant_text helper_parse_fallback) \<and>
   evaluation_unavailable_response \<noteq> spec_evaluation_fallback \<and>
   helper_parse_fallback \<noteq> spec_evaluation_fallback \<and>
   helper_parse_fallback \<noteq> evaluation_unavailable_response"
proof (intro conjI impI)
  assume "(has_openai cfg \<or> has_anthropic cfg) \<and>
    (has_openai cfg \<longrightarrow> isl (openai_evaluate_technical_response cfg a q ans tech)) \<and>
    (has_anthropic cfg \<longrightarrow> isl (anthropic_evaluate_technical_response cfg a q ans tech))"
  then show "snd (evaluate_technical_response cfg a q ans tech) = Inr spec_evaluation_fallback"
    using evaluate_all_raise[of cfg a q ans tech] spec_fallback_is_error_response by simp
next
  assume "\<not> has_openai cfg \<and> \<not> has_anthropic cfg"
  then show "snd (evaluate_technical_response cfg a q ans tech) = Inr evaluation_unavailable_response"
    using evaluate_none_configured[of cfg a q ans tech] by simp
next
  assume h: "has_openai cfg \<and> openai_client cfg \<and> join_tech_stack tech = Inr tech_list \<and>
    openai_create a (EvaluationPrompt tech_list q ans) = Inr reply \<and>
    json_loads cfg reply = JSONDecodeError"
  then have "openai_evaluate_technical_response cfg a q ans tech = Inr helper_parse_fallback"
    using openai_evaluate_parsed[of cfg tech tech_list a q ans reply] by simp
  with h show "snd (evaluate_technical_response cfg a q ans tech) = Inr helper_parse_fallback"
    using evaluate_primary_answers[of cfg a q ans tech helper_parse_fallback] by simp
next
  assume h: "(\<not> has_openai cfg \<or> isl (openai_evaluate_technical_response cfg a q ans tech)) \<and>
    has_anthropic cfg \<and> anthropic_client cfg \<and> join_tech_stack tech = Inr tech_list \<and>
    anthropic_create a (EvaluationPrompt tech_list q ans) = Inr reply \<and>
    json_loads cfg (clean_response reply) = JSONDecodeError"
  then have "anthropic_evaluate_technical_response cfg a q ans tech = Inr helper_parse_fallback"
    using anthropic_evaluate_parsed[of cfg tech tech_list a q ans reply] by simp
  with h show "snd (evaluate_technical_response cfg a q ans tech) = Inr helper_parse_fallback"
    using evaluate_secondary_answers[of cfg a q ans tech helper_parse_fallback] by simp
next
  show "\<not> isl (assistant_text spec_evaluation_fallback)"
       "\<not> isl (assistant_text evaluation_unavailable_response)"
       "\<not> isl (assistant_text helper_parse_fallback)"
    by (simp_all add: fallback_objects_have_fields)
next
  show "evaluation_unavailable_response \<noteq> spec_evaluation_fallback"
    by (simp add: evaluation_unavailable_response_def spec_evaluation_fallback_def)
next
  show "helper_parse_fallback \<noteq> spec_evaluation_fallback"
    by (simp add: helper_parse_fallback_def spec_evaluation_fallback_def)
next
  show "helper_parse_fallback \<noteq> evaluation_unavailable_response"
    by (simp add: helper_parse_fallback_def evaluation_unavailable_response_def)
qed

lemma openai_down:
  "openai_evaluate_technical_response cfg_both api_down ''Q'' ''A'' (PList [''Python'']) = Inl ''timeout''"
  by (simp add: openai_evaluate_technical_response_def cfg_both_flags api_down_def join_python)

lemma anthropic_down:
  "anthropic_evaluate_technical_response cfg_both api_down ''Q'' ''A'' (PList [''Python'']) = Inl ''overloaded''"
  by (simp add: anthropic_evaluate_technical_response_def cfg_both_flags api_down_def join_python)

theorem evaluation_fallbacks_witness:
  "snd (evaluate_technical_response cfg_both api_down ''Q'' ''A'' (PList [''Python'']))
     = Inr spec_evaluation_fallback \<and>
   snd (evaluate_technical_response cfg_none api_down ''Q'' ''A'' (PList [''Python'']))
     = Inr evaluation_unavailable_response \<and>
   snd (evaluate_technical_response cfg_openai_only api_not_json ''Q'' ''A'' (PList [''Python'']))
     = Inr helper_parse_fallback \<and>
   snd (evaluate_technical_response cfg_anthropic_only api_not_json ''Q'' ''A'' (PList [''Python'']))
     = Inr helper_parse_fallback"
proof -
  have 1: "(has_openai cfg_both \<or> has_anthropic cfg_both) \<and>
    (has_openai cfg_both \<longrightarrow>
       isl (openai_evaluate_technical_response cfg_both api_down ''Q'' ''A'' (PList [''Python'']))) \<and>
    (has_anthropic cfg_both \<longrightarrow>
       isl (anthropic_evaluate_technical_response cfg_both api_down ''Q'' ''A'' (PList [''Python''])))"
    using cfg_both_flags by (simp add: openai_down anthropic_down)
  have 2: "\<not> has_openai cfg_none \<and> \<not> has_anthropic cfg_none"
    by (simp add: cfg_none_flags)
  have 3: "has_openai cfg_openai_only \<and> openai_client cfg_openai_only \<and>
    join_tech_stack (PList [''Python'']) = Inr ''Python'' \<and>
    openai_create api_not_json (EvaluationPrompt ''Python'' ''Q'' ''A'') = Inr example_plain_text \<and>
    json_loads cfg_openai_only example_plain_text = JSONDecodeError"
    by (simp add: cfg_openai_only_flags api_not_json_def join_python example_plain_parse)
  have 4: "(\<not> has_openai cfg_anthropic_only \<or>
      isl (openai_evaluate_technical_response cfg_anthropic_only api_not_json ''Q'' ''A'' (PList [''Python'']))) \<and>
    has_anthropic cfg_anthropic_only \<and> anthropic_client cfg_anthropic_only \<and>
    join_tech_stack (PList [''Python'']) = Inr ''Python'' \<and>
    anthropic_create api_not_json (EvaluationPrompt ''Python'' ''Q'' ''A'') = Inr example_plain_text \<and>
    json_loads cfg_anthropic_only (clean_response example_plain_text) = JSONDecodeError"
    by (simp add: cfg_anthropic_only_flags api_not_json_def join_python example_plain_clean
          example_plain_parse)
  have a: "snd (evaluate_technical_response cfg_both api_down ''Q'' ''A'' (PList [''Python'']))
     = Inr spec_evaluation_fallback"
    using 1 evaluation_fallbacks[of cfg_both api_down "''Q''" "''A''" "PList [''Python'']" "[]" "[]"]
    by blast
  have b: "snd (evaluate_technical_response cfg_none api_down ''Q'' ''A'' (PList [''Python'']))
     = Inr evaluation_unavailable_response"
    using 2 evaluation_fallbacks[of cfg_none api_down "''Q''" "''A''" "PList [''Python'']" "[]" "[]"]
    by blast
  have c: "snd (evaluate_technical_response cfg_openai_only api_not_json ''Q'' ''A'' (PList [''Python'']))
     = Inr helper_parse_fallback"
    using 3 evaluation_fallbacks[of cfg_openai_only api_not_json "''Q''" "''A''" "PList [''Python'']"
        "''Python''" example_plain_text]
    by blast
  have d: "snd (evaluate_technical_response cfg_anthropic_only api_not_json ''Q'' ''A'' (PList [''Python'']))
     = Inr helper_parse_fallback"
    using 4 evaluation_fallbacks[of cfg_anthropic_only api_not_json "''Q''" "''A''" "PList [''Python'']"
        "''Python''" example_plain_text]
    by blast
  from a b c d show ?thesis by (intro conjI)
qed

text \<open>
  The claim as stated fails in three ways: with neither provider configured, and with a
  reply that is not JSON, the object returned is a fixed one but not the one the
  specification gives; and a reply that is JSON without the three fields is returned as
  decoded, which is no fallback object and has no \<open>response\<close> field.
\<close>

theorem evaluation_fallback_counterexample:
  "snd (evaluate_technical_response cfg_none api_down ''Q'' ''A'' (PList [''Python'']))
     = Inr evaluation_unavailable_response \<and>
   evaluation_unavailable_response \<noteq> spec_evaluation_fallback \<and>
   openai_create api_not_json (EvaluationPrompt ''Python'' ''Q'' ''A'') = Inr example_plain_text \<and>
   example_loads example_plain_text = JSONDecodeError \<and>
   snd (evaluate_technical_response cfg_openai_only api_not_json ''Q'' ''A'' (PList [''Python'']))
     = Inr helper_parse_fallback \<and>
   helper_parse_fallback \<noteq> spec_evaluation_fallback \<and>
   openai_create api_unshaped (EvaluationPrompt ''Python'' ''Q'' ''A'') = Inr example_unshaped_text \<and>
   example_loads example_unshaped_text = Loaded example_unshaped \<and>
   snd (evaluate_technical_response cfg_openai_only api_unshaped ''Q'' ''A'' (PList [''Python'']))
     = Inr example_unshaped \<and>
   example_unshaped \<noteq> spec_evaluation_fallback \<and>
   assistant_text example_unshaped = Inl (KeyError ''response'')"
proof -
  have a: "snd (evaluate_technical_response cfg_none api_down ''Q'' ''A'' (PList [''Python'']))
     = Inr evaluation_unavailable_response"
    by (rule evaluate_none_configured) (simp_all add: cfg_none_flags)
  have b: "evaluation_unavailable_response \<noteq> spec_evaluation_fallback"
    by (simp add: evaluation_unavailable_response_def spec_evaluation_fallback_def)
  have c: "openai_create api_not_json (EvaluationPrompt ''Python'' ''Q'' ''A'') = Inr example_plain_text"
    by (simp add: api_not_json_def)
  have "openai_evaluate_technical_response cfg_openai_only api_not_json ''Q'' ''A'' (PList [''Python''])
     = Inr helper_parse_fallback"
    by (simp add: openai_evaluate_technical_response_def cfg_openai_only_flags api_not_json_def
          join_python example_plain_parse)
  then have d: "snd (evaluate_technical_response cfg_openai_only api_not_json ''Q'' ''A'' (PList [''Python'']))
     = Inr helper_parse_fallback"
    by (intro evaluate_primary_answers) (simp_all add: cfg_openai_only_flags)
  have e: "helper_parse_fallback \<noteq> spec_evaluation_fallback"
    by (simp add: helper_parse_fallback_def spec_evaluation_fallback_def)
  have f: "openai_create api_unshaped (EvaluationPrompt ''Python'' ''Q'' ''A'') = Inr example_unshaped_text"
    by (simp add: api_unshaped_def)
  have "openai_evaluate_technical_response cfg_openai_only api_unshaped ''Q'' ''A'' (PList [''Python''])
     = Inr example_unshaped"
    by (simp add: openai_evaluate_technical_response_def cfg_openai_only_flags api_unshaped_def
          join_python example_unshaped_parse)
  then have g: "snd (evaluate_technical_response cfg_openai_only api_unshaped ''Q'' ''A'' (PList [''Python'']))
     = Inr example_unshaped"
    by (intro evaluate_primary_answers) (simp_all add: cfg_openai_only_flags)
  have h: "example_unshaped \<noteq> spec_evaluation_fallback"
    by (simp add: example_unshaped_def spec_evaluation_fallback_def)
  have i: "assistant_text example_unshaped = Inl (KeyError ''response'')"
    by (simp add: assistant_text_def json_getitem_def example_unshaped_def)
  from a b c d e f g h i example_plain_parse example_unshaped_parse
  show ?thesis by (intro conjI)
qed

section \<open>The system prompt\<close>

lemma append_field_line: "append_field base kv = base @ spec_field_line kv"
  by (cases kv; cases "snd kv"; simp add: spec_field_line_def)

lemma foldl_append_field:
  "foldl append_field base info = base @ concat (map spec_field_line info)"
  by (induction info arbitrary: base) (simp_all add: append_field_line)

lemma stage_prompts_lookup:
  "map_of stage_prompts stage =
     (if stage = 1 \<or> stage = 2 \<or> stage = 3 \<or> stage = 4 \<or> stage = 5 \<or> stage = 6
      then Some (spec_stage_block stage) else None)"
  by (simp add: stage_prompts_def spec_stage_block_def)

lemma spec_stage_block_unmapped:
  "stage < 1 \<or> 6 < stage \<Longrightarrow> spec_stage_block stage = []"
  by (auto simp: spec_stage_block_def)

text \<open>
  Claim C9. For every stage value and every \<open>candidate_info\<close>, the system prompt built
  by either helper is the fixed preamble, then one line per entry of \<open>candidate_info\<close> in
  its order (tech\_stack with a list as a comma-joined list, any other entry as
  \<open>key: value\<close>), then the instruction block of the stage for the stages 1 to 6; for any
  other stage nothing follows the lines of the fields.
\<close>

theorem system_prompt_shape:
  "openai_get_system_prompt stage info = spec_system_prompt stage info \<and>
   anthropic_get_system_prompt stage info = spec_system_prompt stage info \<and>
   (stage < 1 \<or> 6 < stage \<longrightarrow>
      openai_get_system_prompt stage info = base_prompt_text @ concat (map spec_field_line info) \<and>
      anthropic_get_system_prompt stage info = base_prompt_text @ concat (map spec_field_line info))"
proof -
  have a: "openai_get_system_prompt stage info = spec_system_prompt stage info"
    by (simp add: openai_get_system_prompt_def spec_system_prompt_def foldl_append_field
          stage_prompts_lookup Let_def spec_stage_block_def)
  have b: "anthropic_get_system_prompt stage info = spec_system_prompt stage info"
    by (simp add: anthropic_get_system_prompt_def spec_system_prompt_def foldl_append_field
          stage_prompts_lookup Let_def spec_stage_block_def)
  have c: "stage < 1 \<or> 6 < stage \<Longrightarrow>
      spec_system_prompt stage info = base_prompt_text @ concat (map spec_field_line info)"
    using spec_stage_block_unmapped[of stage] by (simp add: spec_system_prompt_def)
  from a b c show ?thesis by simp
qed

theorem system_prompt_shape_witness:
  "openai_get_system_prompt 5 example_info =
     base_prompt_text @ ''- name: Jane Doe\<newline>- experience: 3\<newline>- tech_stack: Python, Go\<newline>'' @ stage_prompt_5 \<and>
   anthropic_get_system_prompt 0 example_info =
     base_prompt_text @ ''- name: Jane Doe\<newline>- experience: 3\<newline>- tech_stack: Python, Go\<newline>''"
proof -
  have l: "concat (map spec_field_line example_info)
      = ''- name: Jane Doe\<newline>- experience: 3\<newline>- tech_stack: Python, Go\<newline>''"
    unfolding example_info_def by code_simp
  have s: "spec_stage_block 5 = stage_prompt_5" by (simp add: spec_stage_block_def)
  have "openai_get_system_prompt 5 example_info = spec_system_prompt 5 example_info"
    using system_prompt_shape[of 5 example_info] by blast
  then have a: "openai_get_system_prompt 5 example_info =
     base_prompt_text @ ''- name: Jane Doe\<newline>- experience: 3\<newline>- tech_stack: Python, Go\<newline>'' @ stage_prompt_5"
    unfolding spec_system_prompt_def l s .
  have u: "(0::int) < 1 \<or> 6 < (0::int)" by simp
  have "anthropic_get_system_prompt 0 example_info
      = base_prompt_text @ concat (map spec_field_line example_info)"
    using u system_prompt_shape[of 0 example_info] by blast
  then have b: "anthropic_get_system_prompt 0 example_info =
     base_prompt_text @ ''- name: Jane Doe\<newline>- experience: 3\<newline>- tech_stack: Python, Go\<newline>''"
    unfolding l .
  from a b show ?thesis by (intro conjI)
qed

section \<open>Properties of the stage controller\<close>

subsection \<open>What each branch of \<open>handle_user_response\<close> leaves behind\<close>

lemma chat_and_append_eq:
  "\<exists>reply. chat_and_append cfg a s cs finish =
     \<lparr>after = finish (s\<lparr>chat_history := chat_history s @ [\<lparr>role = ''assistant'', content = reply\<rparr>]\<rparr>),
      calls = cs @ [ChatCall (chat_history s) (interview_stage s) (candidate_info s)],
      raised = None\<rparr>"
  using chat_returns[of cfg a "chat_history s" "interview_stage s" "candidate_info s"]
  by (auto simp: chat_and_append_def Let_def update_chat_history_def)

lemma handle_stage_1:
  assumes "interview_stage s = 1"
  shows "\<exists>reply. handle_user_response cfg a x s =
     \<lparr>after = s\<lparr>chat_history := chat_history s @ [\<lparr>role = ''user'', content = x\<rparr>, \<lparr>role = ''assistant'', content = reply\<rparr>],
                candidate_info := AList.update ''name'' (PStr x) (candidate_info s),
                interview_stage := 2\<rparr>,
      calls = [ChatCall (chat_history s @ [\<lparr>role = ''user'', content = x\<rparr>]) 1
                 (AList.update ''name'' (PStr x) (candidate_info s))],
      raised = None\<rparr>"
proof -
  let ?s1 = "(update_chat_history ''user'' x s)\<lparr>candidate_info := AList.update ''name'' (PStr x) (candidate_info (update_chat_history ''user'' x s))\<rparr>"
  have h: "handle_user_response cfg a x s = chat_and_append cfg a ?s1 [] (\<lambda>t. t\<lparr>interview_stage := 2\<rparr>)"
    using assms by (simp add: handle_user_response_def Let_def update_chat_history_def)
  from chat_and_append_eq[of cfg a ?s1 "[]" "\<lambda>t. t\<lparr>interview_stage := 2\<rparr>"]
  show ?thesis unfolding h using assms by (cases s) (auto simp: update_chat_history_def)
qed

lemma handle_stage_other:
  assumes "interview_stage s \<noteq> 1" "interview_stage s \<noteq> 5"
  shows "\<exists>reply. handle_user_response cfg a x s =
     \<lparr>after = s\<lparr>chat_history := chat_history s @ [\<lparr>role = ''user'', content = x\<rparr>, \<lparr>role = ''assistant'', content = reply\<rparr>]\<rparr>,
      calls = [ChatCall (chat_history s @ [\<lparr>role = ''user'', content = x\<rparr>]) (interview_stage s) (candidate_info s)],
      raised = None\<rparr>"
proof -
  let ?s1 = "update_chat_history ''user'' x s"
  have h: "handle_user_response cfg a x s = chat_and_append cfg a ?s1 [] (\<lambda>t. t)"
    using assms by (simp add: handle_user_response_def Let_def update_chat_history_def)
  from chat_and_append_eq[of cfg a ?s1 "[]" "\<lambda>t. t"]
  show ?thesis unfolding h using assms by (cases s) (auto simp: update_chat_history_def)
qed

lemma handle_stage_5_generate:
  assumes "interview_stage s = 5" "technical_questions s = []"
      "map_of (candidate_info s) ''tech_stack'' = Some tech"
  shows "\<exists>questions. snd (generate_technical_questions cfg a tech) = Inr questions \<and>
     handle_user_response cfg a x s =
     \<lparr>after = s\<lparr>chat_history := chat_history s @
                   [\<lparr>role = ''user'', content = x\<rparr>,
                    \<lparr>role = ''assistant'',
                     content = (case question_lines questions of
                                  [] \<Rightarrow> generic_discussion_prompt | q # qs \<Rightarrow> q)\<rparr>],
                technical_questions := question_lines questions,
                current_question_index := 0\<rparr>,
      calls = [QuestionsCall tech],
      raised = None\<rparr>"
proof -
  obtain questions where q: "snd (generate_technical_questions cfg a tech) = Inr questions"
    using questions_returns by blast
  show ?thesis
    apply (rule exI[of _ questions])
    using assms q
    by (simp add: handle_user_response_def Let_def update_chat_history_def question_lines_def
             split: list.splits)
qed

lemma handle_stage_5_malformed:
  assumes "interview_stage s = 5" "technical_questions s \<noteq> []"
      "current_question_index s < length (technical_questions s)"
      "map_of (candidate_info s) ''tech_stack'' = Some tech"
      "snd (evaluate_technical_response cfg a (technical_questions s ! current_question_index s) x tech) = Inr ev"
      "assistant_text ev = Inl e"
  shows "handle_user_response cfg a x s =
     \<lparr>after = s\<lparr>chat_history := chat_history s @ [\<lparr>role = ''user'', content = x\<rparr>]\<rparr>,
      calls = [EvalCall (technical_questions s ! current_question_index s) x tech],
      raised = Some e\<rparr>"
  using assms
  by (simp add: handle_user_response_def Let_def update_chat_history_def)

lemma handle_stage_5_continue:
  assumes "interview_stage s = 5" "technical_questions s \<noteq> []"
      "current_question_index s < length (technical_questions s)"
      "map_of (candidate_info s) ''tech_stack'' = Some tech"
      "snd (evaluate_technical_response cfg a (technical_questions s ! current_question_index s) x tech) = Inr ev"
      "assistant_text ev = Inr txt"
      "current_question_index s + 1 < length (technical_questions s)"
      "current_question_index s + 1 < 5"
  shows "handle_user_response cfg a x s =
     \<lparr>after = s\<lparr>chat_history := chat_history s @ [\<lparr>role = ''user'', content = x\<rparr>, \<lparr>role = ''assistant'', content = txt\<rparr>],
                current_question_index := current_question_index s + 1\<rparr>,
      calls = [EvalCall (technical_questions s ! current_question_index s) x tech],
      raised = None\<rparr>"
  using assms
  by (simp add: handle_user_response_def Let_def update_chat_history_def)

lemma handle_stage_5_conclude:
  assumes "interview_stage s = 5" "technical_questions s \<noteq> []"
      "current_question_index s < length (technical_questions s)"
      "map_of (candidate_info s) ''tech_stack'' = Some tech"
      "snd (evaluate_technical_response cfg a (technical_questions s ! current_question_index s) x tech) = Inr ev"
      "assistant_text ev = Inr txt"
      "length (technical_questions s) \<le> current_question_index s + 1 \<or> 5 \<le> current_question_index s + 1"
  shows "\<exists>reply. handle_user_response cfg a x s =
     \<lparr>after = s\<lparr>chat_history := chat_history s @ [\<lparr>role = ''user'', content = x\<rparr>, \<lparr>role = ''assistant'', content = txt\<rparr>,
                                  \<lparr>role = ''assistant'', content = reply\<rparr>],
                current_question_index := current_question_index s + 1,
                interview_stage := 6\<rparr>,
      calls = [EvalCall (technical_questions s ! current_question_index s) x tech,
               ChatCall (chat_history s @ [\<lparr>role = ''user'', content = x\<rparr>, \<lparr>role = ''assistant'', content = txt\<rparr>]) 6 (candidate_info s)],
      raised = None\<rparr>"
proof -
  let ?s2 = "s\<lparr>chat_history := chat_history s @ [\<lparr>role = ''user'', content = x\<rparr>, \<lparr>role = ''assistant'', content = txt\<rparr>],
                current_question_index := current_question_index s + 1, interview_stage := 6\<rparr>"
  have h: "handle_user_response cfg a x s =
      chat_and_append cfg a ?s2 [EvalCall (technical_questions s ! current_question_index s) x tech] (\<lambda>t. t)"
    using assms by (auto simp add: handle_user_response_def Let_def update_chat_history_def)
  from chat_and_append_eq[of cfg a ?s2 "[EvalCall (technical_questions s ! current_question_index s) x tech]" "\<lambda>t. t"]
  show ?thesis unfolding h by (cases s) auto
qed

subsection \<open>The ways through one handler\<close>

lemma handle_cases:
  fixes s :: session
  defines "u \<equiv> \<lambda>x. \<lparr>role = ''user'', content = x\<rparr>"
      and "m \<equiv> \<lambda>x. \<lparr>role = ''assistant'', content = x\<rparr>"
  obtains
    (name) reply where "interview_stage s = 1"
      "handle_user_response cfg a x s =
         \<lparr>after = s\<lparr>chat_history := chat_history s @ [u x, m reply],
                    candidate_info := AList.update ''name'' (PStr x) (candidate_info s),
                    interview_stage := 2\<rparr>,
          calls = [ChatCall (chat_history s @ [u x]) 1
                     (AList.update ''name'' (PStr x) (candidate_info s))],
          raised = None\<rparr>"
  | (generate) tech questions where "interview_stage s = 5" "technical_questions s = []"
      "map_of (candidate_info s) ''tech_stack'' = Some tech"
      "snd (generate_technical_questions cfg a tech) = Inr questions"
      "handle_user_response cfg a x s =
         \<lparr>after = s\<lparr>chat_history := chat_history s @
                      [u x, m (case question_lines questions of
                                 [] \<Rightarrow> generic_discussion_prompt | q # qs \<Rightarrow> q)],
                    technical_questions := question_lines questions,
                    current_question_index := 0\<rparr>,
          calls = [QuestionsCall tech],
          raised = None\<rparr>"
  | (stopped) cs e where "interview_stage s = 5"
      "handle_user_response cfg a x s =
         \<lparr>after = s\<lparr>chat_history := chat_history s @ [u x]\<rparr>, calls = cs, raised = Some e\<rparr>"
  | (advance) tech rtext where "interview_stage s = 5" "technical_questions s \<noteq> []"
      "current_question_index s + 1 < length (technical_questions s)"
      "current_question_index s + 1 < 5"
      "map_of (candidate_info s) ''tech_stack'' = Some tech"
      "handle_user_response cfg a x s =
         \<lparr>after = s\<lparr>chat_history := chat_history s @ [u x, m rtext],
                    current_question_index := current_question_index s + 1\<rparr>,
          calls = [EvalCall (technical_questions s ! current_question_index s) x tech],
          raised = None\<rparr>"
  | (conclude) tech rtext reply where "interview_stage s = 5" "technical_questions s \<noteq> []"
      "current_question_index s < length (technical_questions s)"
      "length (technical_questions s) \<le> current_question_index s + 1
         \<or> 5 \<le> current_question_index s + 1"
      "map_of (candidate_info s) ''tech_stack'' = Some tech"
      "handle_user_response cfg a x s =
         \<lparr>after = s\<lparr>chat_history := chat_history s @ [u x, m rtext, m reply],
                    current_question_index := current_question_index s + 1,
                    interview_stage := 6\<rparr>,
          calls = [EvalCall (technical_questions s ! current_question_index s) x tech,
                   ChatCall (chat_history s @ [u x, m rtext]) 6 (candidate_info s)],
          raised = None\<rparr>"
  | (chat) reply where "interview_stage s \<noteq> 1" "interview_stage s \<noteq> 5"
      "handle_user_response cfg a x s =
         \<lparr>after = s\<lparr>chat_history := chat_history s @ [u x, m reply]\<rparr>,
          calls = [ChatCall (chat_history s @ [u x]) (interview_stage s) (candidate_info s)],
          raised = None\<rparr>"
proof -
  consider (s1) "interview_stage s = 1" | (s5) "interview_stage s = 5"
    | (so) "interview_stage s \<noteq> 1" "interview_stage s \<noteq> 5" by blast
  then show thesis
  proof cases
    case s1
    from handle_stage_1[OF s1, of cfg a x] show thesis
      using name s1 unfolding u_def m_def by blast
  next
    case so
    from handle_stage_other[OF so, of cfg a x] show thesis
      using chat so unfolding u_def m_def by blast
  next
    case s5
    show thesis
    proof (cases "technical_questions s = []")
      case True
      show thesis
      proof (cases "map_of (candidate_info s) ''tech_stack''")
        case None
        then have "handle_user_response cfg a x s =
            \<lparr>after = s\<lparr>chat_history := chat_history s @ [u x]\<rparr>, calls = [],
             raised = Some (KeyError ''tech_stack'')\<rparr>"
          using s5 True
          by (simp add: handle_user_response_def Let_def update_chat_history_def u_def)
        then show thesis using stopped s5 by blast
      next
        case (Some tech)
        from handle_stage_5_generate[OF s5 True Some, of cfg a x] show thesis
          using generate s5 True Some unfolding u_def m_def by blast
      qed
    next
      case False
      show thesis
      proof (cases "current_question_index s < length (technical_questions s)")
        case oob: False
        then have "handle_user_response cfg a x s =
            \<lparr>after = s\<lparr>chat_history := chat_history s @ [u x]\<rparr>, calls = [],
             raised = Some IndexError\<rparr>"
          using s5 \<open>technical_questions s \<noteq> []\<close>
          by (simp add: handle_user_response_def Let_def update_chat_history_def u_def)
        then show thesis using stopped s5 by blast
      next
        case inb: True
        show thesis
        proof (cases "map_of (candidate_info s) ''tech_stack''")
          case None
          then have "handle_user_response cfg a x s =
              \<lparr>after = s\<lparr>chat_history := chat_history s @ [u x]\<rparr>, calls = [],
               raised = Some (KeyError ''tech_stack'')\<rparr>"
            using s5 \<open>technical_questions s \<noteq> []\<close> inb
            by (simp add: handle_user_response_def Let_def update_chat_history_def u_def)
          then show thesis using stopped s5 by blast
        next
          case (Some tech)
          obtain ev where ev: "snd (evaluate_technical_response cfg a
              (technical_questions s ! current_question_index s) x tech) = Inr ev"
            using evaluate_returns by blast
          show thesis
          proof (cases "assistant_text ev")
            case (Inl e)
            from handle_stage_5_malformed[OF s5 False inb Some ev Inl] show thesis
              using stopped s5 unfolding u_def by blast
          next
            case (Inr rtext)
            show thesis
            proof (cases "current_question_index s + 1 < length (technical_questions s)
                \<and> current_question_index s + 1 < 5")
              case True
              then have t: "current_question_index s + 1 < length (technical_questions s)"
                  "current_question_index s + 1 < 5" by simp_all
              from handle_stage_5_continue[OF s5 False inb Some ev Inr t] show thesis
                using advance s5 False t Some unfolding u_def m_def by blast
            next
              case nt: False
              then have d: "length (technical_questions s) \<le> current_question_index s + 1
                  \<or> 5 \<le> current_question_index s + 1" by auto
              from handle_stage_5_conclude[OF s5 False inb Some ev Inr d] show thesis
                using conclude s5 False inb d Some unfolding u_def m_def by blast
            qed
          qed
        qed
      qed
    qed
  qed
qed

subsection \<open>The ways through one run of the script\<close>

lemma script_cases:
  fixes s :: session
  defines "u \<equiv> \<lambda>x. \<lparr>role = ''user'', content = x\<rparr>"
      and "m \<equiv> \<lambda>x. \<lparr>role = ''assistant'', content = x\<rparr>"
  obtains
    (idle) "chat_history s \<noteq> []" "script_run cfg a ev s = unchanged s"
  | (opened) "chat_history s = []"
      "script_run cfg a ev s =
         unchanged (s\<lparr>chat_history := [m initial_message], interview_stage := 1\<rparr>)"
  | (contact) e p reply where "chat_history s \<noteq> []" "interview_stage s = 2"
      "ev = ContactSubmit e p"
      "script_run cfg a ev s =
         \<lparr>after = s\<lparr>chat_history := chat_history s @ [u (''Email: '' @ e @ '', Phone: '' @ p), m reply],
                    candidate_info :=
                      AList.update ''contact'' (PStr (''Email: '' @ e @ '', Phone: '' @ p)) (candidate_info s),
                    interview_stage := 3\<rparr>,
          calls = [ChatCall (chat_history s @ [u (''Email: '' @ e @ '', Phone: '' @ p)]) 2
                     (AList.update ''contact'' (PStr (''Email: '' @ e @ '', Phone: '' @ p)) (candidate_info s))],
          raised = None\<rparr>"
  | (experience) y p reply where "chat_history s \<noteq> []" "interview_stage s = 3"
      "ev = ExperienceSubmit y p"
      "script_run cfg a ev s =
         \<lparr>after = s\<lparr>chat_history := chat_history s @
                      [u (''Experience: '' @ str_of_int y @ '' years, Desired position: '' @ p), m reply],
                    candidate_info :=
                      AList.update ''position'' (PStr p)
                        (AList.update ''experience'' (PInt y) (candidate_info s)),
                    interview_stage := 4\<rparr>,
          calls = [ChatCall (chat_history s @
                      [u (''Experience: '' @ str_of_int y @ '' years, Desired position: '' @ p)]) 3
                     (AList.update ''position'' (PStr p)
                        (AList.update ''experience'' (PInt y) (candidate_info s)))],
          raised = None\<rparr>"
  | (tech) ts reply where "chat_history s \<noteq> []" "interview_stage s = 4" "ts \<noteq> []"
      "ev = TechStackSubmit ts"
      "script_run cfg a ev s =
         \<lparr>after = s\<lparr>chat_history := chat_history s @ [u (''Tech skills: '' @ str_join '', '' ts), m reply],
                    candidate_info := AList.update ''tech_stack'' (PList ts) (candidate_info s),
                    interview_stage := 5\<rparr>,
          calls = [ChatCall (chat_history s @ [u (''Tech skills: '' @ str_join '', '' ts)]) 4
                     (AList.update ''tech_stack'' (PList ts) (candidate_info s))],
          raised = None\<rparr>"
  | (send) x where "chat_history s \<noteq> []" "interview_stage s \<noteq> 2" "interview_stage s \<noteq> 3"
      "interview_stage s \<noteq> 4" "x \<noteq> []" "ev = SendText x"
      "script_run cfg a ev s = handle_user_response cfg a x s"
proof (cases "chat_history s = []")
  case True
  then have "script_run cfg a ev s =
      unchanged (s\<lparr>chat_history := [m initial_message], interview_stage := 1\<rparr>)"
    by (simp add: script_run_def update_chat_history_def m_def)
  then show thesis using opened True by blast
next
  case ne: False
  show thesis
  proof (cases ev)
    case NoAction
    then have "script_run cfg a ev s = unchanged s"
      using ne by (simp add: script_run_def)
    then show thesis using idle ne by blast
  next
    case (ContactSubmit e p)
    show thesis
    proof (cases "interview_stage s = 2")
      case False
      then have "script_run cfg a ev s = unchanged s"
        using ne ContactSubmit by (simp add: script_run_def)
      then show thesis using idle ne by blast
    next
      case True
      let ?ci = "''Email: '' @ e @ '', Phone: '' @ p"
      let ?s2 = "s\<lparr>chat_history := chat_history s @ [u ?ci],
                   candidate_info := AList.update ''contact'' (PStr ?ci) (candidate_info s)\<rparr>"
      have h: "script_run cfg a ev s = chat_and_append cfg a ?s2 [] (\<lambda>t. t\<lparr>interview_stage := 3\<rparr>)"
        using ne True ContactSubmit
        by (simp add: script_run_def Let_def update_chat_history_def u_def)
      from chat_and_append_eq[of cfg a ?s2 "[]" "\<lambda>t. t\<lparr>interview_stage := 3\<rparr>"]
      obtain reply where "script_run cfg a ev s =
         \<lparr>after = s\<lparr>chat_history := chat_history s @ [u ?ci, m reply],
                    candidate_info := AList.update ''contact'' (PStr ?ci) (candidate_info s),
                    interview_stage := 3\<rparr>,
          calls = [ChatCall (chat_history s @ [u ?ci]) 2
                     (AList.update ''contact'' (PStr ?ci) (candidate_info s))],
          raised = None\<rparr>"
        unfolding h using True by (cases s) (auto simp: m_def)
      then show thesis using contact ne True ContactSubmit by blast
    qed
  next
    case (ExperienceSubmit y p)
    show thesis
    proof (cases "interview_stage s = 3")
      case False
      then have "script_run cfg a ev s = unchanged s"
        using ne ExperienceSubmit by (simp add: script_run_def)
      then show thesis using idle ne by blast
    next
      case True
      let ?ei = "''Experience: '' @ str_of_int y @ '' years, Desired position: '' @ p"
      let ?s2 = "s\<lparr>chat_history := chat_history s @ [u ?ei],
                   candidate_info := AList.update ''position'' (PStr p)
                      (AList.update ''experience'' (PInt y) (candidate_info s))\<rparr>"
      have h: "script_run cfg a ev s = chat_and_append cfg a ?s2 [] (\<lambda>t. t\<lparr>interview_stage := 4\<rparr>)"
        using ne True ExperienceSubmit
        by (simp add: script_run_def Let_def update_chat_history_def u_def)
      from chat_and_append_eq[of cfg a ?s2 "[]" "\<lambda>t. t\<lparr>interview_stage := 4\<rparr>"]
      obtain reply where "script_run cfg a ev s =
         \<lparr>after = s\<lparr>chat_history := chat_history s @ [u ?ei, m reply],
                    candidate_info := AList.update ''position'' (PStr p)
                      (AList.update ''experience'' (PInt y) (candidate_info s)),
                    interview_stage := 4\<rparr>,
          calls = [ChatCall (chat_history s @ [u ?ei]) 3
                     (AList.update ''position'' (PStr p)
                        (AList.update ''experience'' (PInt y) (candidate_info s)))],
          raised = None\<rparr>"
        unfolding h using True by (cases s) (auto simp: m_def)
      then show thesis using experience ne True ExperienceSubmit by blast
    qed
  next
    case (TechStackSubmit ts)
    show thesis
    proof (cases "interview_stage s = 4 \<and> ts \<noteq> []")
      case False
      then have "script_run cfg a ev s = unchanged s"
        using ne TechStackSubmit by (auto simp add: script_run_def)
      then show thesis using idle ne by blast
    next
      case True
      let ?ti = "''Tech skills: '' @ str_join '', '' ts"
      let ?s2 = "s\<lparr>chat_history := chat_history s @ [u ?ti],
                   candidate_info := AList.update ''tech_stack'' (PList ts) (candidate_info s)\<rparr>"
      have h: "script_run cfg a ev s = chat_and_append cfg a ?s2 [] (\<lambda>t. t\<lparr>interview_stage := 5\<rparr>)"
        using ne True TechStackSubmit
        by (simp add: script_run_def Let_def update_chat_history_def u_def)
      from chat_and_append_eq[of cfg a ?s2 "[]" "\<lambda>t. t\<lparr>interview_stage := 5\<rparr>"]
      obtain reply where "script_run cfg a ev s =
         \<lparr>after = s\<lparr>chat_history := chat_history s @ [u ?ti, m reply],
                    candidate_info := AList.update ''tech_stack'' (PList ts) (candidate_info s),
                    interview_stage := 5\<rparr>,
          calls = [ChatCall (chat_history s @ [u ?ti]) 4
                     (AList.update ''tech_stack'' (PList ts) (candidate_info s))],
          raised = None\<rparr>"
        unfolding h using True by (cases s) (auto simp: m_def)
      then show thesis using tech ne True TechStackSubmit by blast
    qed
  next
    case (SendText x)
    show thesis
    proof (cases "interview_stage s \<noteq> 2 \<and> interview_stage s \<noteq> 3 \<and> interview_stage s \<noteq> 4 \<and> x \<noteq> []")
      case False
      then have "script_run cfg a ev s = unchanged s"
        using ne SendText by (auto simp add: script_run_def)
      then show thesis using idle ne by blast
    next
      case True
      then have "script_run cfg a ev s = handle_user_response cfg a x s"
        using ne SendText by (simp add: script_run_def)
      then show thesis using send ne True SendText by blast
    qed
  qed
qed

subsection \<open>What every reachable session satisfies\<close>

lemma session_inv_initial: "session_inv initialize_session_state"
  by (simp add: session_inv_def initialize_session_state_def)

lemma session_inv_started:
  assumes "session_inv s" "chat_history s \<noteq> []"
  shows "1 \<le> interview_stage s" "interview_stage s \<le> 6"
  using assms by (simp_all add: session_inv_def)

lemma session_inv_early:
  assumes "session_inv s" "chat_history s \<noteq> []" "interview_stage s < 5"
  shows "technical_questions s = []" "current_question_index s = 0"
    "map_of (candidate_info s) ''tech_stack'' = None"
  using assms by (simp_all add: session_inv_def)

lemma session_inv_late:
  assumes "session_inv s" "chat_history s \<noteq> []" "5 \<le> interview_stage s"
  shows "\<exists>ts. map_of (candidate_info s) ''tech_stack'' = Some (PList ts) \<and> ts \<noteq> []"
    "technical_questions s = [] \<Longrightarrow> current_question_index s = 0"
    "technical_questions s \<noteq> [] \<Longrightarrow> interview_stage s = 5 \<Longrightarrow>
       current_question_index s < min (length (technical_questions s)) 5"
    "current_question_index s \<le> min (length (technical_questions s)) 5"
  using assms by (auto simp add: session_inv_def split: if_splits)

lemma map_of_update_other:
  "k \<noteq> k' \<Longrightarrow> map_of (AList.update k v al) k' = map_of al k'"
  by (simp add: update_conv')

lemma map_of_update_same: "map_of (AList.update k v al) k = Some v"
  by (simp add: update_conv')

lemma handle_inv:
  assumes inv: "session_inv s" and ne: "chat_history s \<noteq> []"
  shows "session_inv (after (handle_user_response cfg a x s))"
proof (cases rule: handle_cases[of s cfg a x])
  case (name reply)
  have "interview_stage s < 5" using name by simp
  from session_inv_early[OF inv ne this] show ?thesis
    using name by (simp add: session_inv_def map_of_update_other)
next
  case (generate tech questions)
  have "5 \<le> interview_stage s" using generate by simp
  from session_inv_late(1)[OF inv ne this] show ?thesis
    using generate by (simp add: session_inv_def)
next
  case (stopped cs e)
  have "5 \<le> interview_stage s" using stopped by simp
  from session_inv_late[OF inv ne this] show ?thesis
    using stopped by (simp add: session_inv_def)
next
  case (advance tech rtext)
  have "5 \<le> interview_stage s" using advance by simp
  from session_inv_late(1)[OF inv ne this] show ?thesis
    using advance by (simp add: session_inv_def)
next
  case (conclude tech rtext reply)
  have "5 \<le> interview_stage s" using conclude by simp
  from session_inv_late[OF inv ne this] show ?thesis
    using conclude by (simp add: session_inv_def)
next
  case (chat reply)
  show ?thesis
  proof (cases "interview_stage s < 5")
    case True
    from session_inv_early[OF inv ne True] session_inv_started[OF inv ne] show ?thesis
      using chat True by (simp add: session_inv_def)
  next
    case False
    then have "5 \<le> interview_stage s" by simp
    from session_inv_late[OF inv ne this] session_inv_started[OF inv ne] show ?thesis
      using chat False by (simp add: session_inv_def)
  qed
qed

lemma script_inv:
  assumes inv: "session_inv s"
  shows "session_inv (after (script_run cfg a ev s))"
proof (cases rule: script_cases[of s cfg a ev])
  case idle
  then show ?thesis using inv by (simp add: unchanged_def)
next
  case opened
  then have "s = initialize_session_state" using inv by (simp add: session_inv_def)
  then show ?thesis using opened
    by (simp add: unchanged_def session_inv_def initialize_session_state_def)
next
  case (contact e p reply)
  have "interview_stage s < 5" using contact by simp
  from session_inv_early[OF inv contact(1) this] show ?thesis
    using contact by (simp add: session_inv_def map_of_update_other)
next
  case (experience y p reply)
  have "interview_stage s < 5" using experience by simp
  from session_inv_early[OF inv experience(1) this] show ?thesis
    using experience by (simp add: session_inv_def map_of_update_other)
next
  case (tech ts reply)
  have "interview_stage s < 5" using tech by simp
  from session_inv_early[OF inv tech(1) this] show ?thesis
    using tech by (simp add: session_inv_def map_of_update_same)
next
  case (send x)
  then show ?thesis using handle_inv[OF inv send(1)] by simp
qed

lemma run_inv: "session_inv s \<Longrightarrow> session_inv (run cfg s inputs)"
proof (induction inputs arbitrary: s)
  case Nil
  then show ?case by simp
next
  case (Cons i inputs)
  obtain a ev where i: "i = (a, ev)" by (cases i)
  show ?case unfolding i using Cons.IH[OF script_inv[OF Cons.prems]] by simp
qed

lemma reachable_inv: "session_inv (run cfg initialize_session_state inputs)"
  by (rule run_inv[OF session_inv_initial])

lemma run_append: "run cfg s (xs @ ys) = run cfg (run cfg s xs) ys"
  by (induction xs arbitrary: s) auto

lemma run_calls_append:
  "run_calls cfg s (xs @ ys) = run_calls cfg s xs @ run_calls cfg (run cfg s xs) ys"
  by (induction xs arbitrary: s) auto

subsection \<open>One run of the script: the stage and the cursor\<close>

lemma handle_stage_step:
  "interview_stage s \<le> interview_stage (after (handle_user_response cfg a x s)) \<and>
   (interview_stage s = 6 \<longrightarrow> interview_stage (after (handle_user_response cfg a x s)) = 6)"
  by (cases rule: handle_cases[of s cfg a x]) simp_all

lemma script_stage_step:
  assumes inv: "session_inv s"
  shows "interview_stage s \<le> interview_stage (after (script_run cfg a ev s)) \<and>
   (interview_stage s = 6 \<longrightarrow> interview_stage (after (script_run cfg a ev s)) = 6)"
proof (cases rule: script_cases[of s cfg a ev])
  case opened
  then have "s = initialize_session_state" using inv by (simp add: session_inv_def)
  then show ?thesis using opened by (simp add: unchanged_def initialize_session_state_def)
next
  case (send x)
  then show ?thesis using handle_stage_step[of s cfg a x] by simp
qed (simp_all add: unchanged_def)

lemma run_stage_mono:
  "session_inv s \<Longrightarrow>
     interview_stage s \<le> interview_stage (run cfg s inputs) \<and>
     (interview_stage s = 6 \<longrightarrow> interview_stage (run cfg s inputs) = 6)"
proof (induction inputs arbitrary: s)
  case Nil
  then show ?case by simp
next
  case (Cons i inputs)
  obtain a ev where i: "i = (a, ev)" by (cases i)
  have st: "interview_stage s \<le> interview_stage (after (script_run cfg a ev s)) \<and>
     (interview_stage s = 6 \<longrightarrow> interview_stage (after (script_run cfg a ev s)) = 6)"
    by (rule script_stage_step[OF Cons.prems])
  have ih: "interview_stage (after (script_run cfg a ev s))
       \<le> interview_stage (run cfg (after (script_run cfg a ev s)) inputs) \<and>
     (interview_stage (after (script_run cfg a ev s)) = 6 \<longrightarrow>
        interview_stage (run cfg (after (script_run cfg a ev s)) inputs) = 6)"
    by (rule Cons.IH[OF script_inv[OF Cons.prems]])
  from st ih show ?case unfolding i by auto
qed




text \<open>
  Claim C7. The interview stage never goes down in a session: after any inputs, whatever
  further inputs are processed (a single one included), the stage is at least what it was;
  and once it is 6 (the conclusion) it is 6 after every further input.
\<close>

theorem stage_monotone:
  "interview_stage (run cfg initialize_session_state inputs)
     \<le> interview_stage (run cfg initialize_session_state (inputs @ later)) \<and>
   interview_stage (run cfg initialize_session_state inputs)
     \<le> interview_stage (after (script_run cfg a ev (run cfg initialize_session_state inputs))) \<and>
   (interview_stage (run cfg initialize_session_state inputs) = 6 \<longrightarrow>
      interview_stage (run cfg initialize_session_state (inputs @ later)) = 6 \<and>
      interview_stage (after (script_run cfg a ev (run cfg initialize_session_state inputs))) = 6)"
proof -
  let ?s = "run cfg initialize_session_state inputs"
  have inv: "session_inv ?s" by (rule reachable_inv)
  have r: "interview_stage ?s \<le> interview_stage (run cfg ?s later) \<and>
     (interview_stage ?s = 6 \<longrightarrow> interview_stage (run cfg ?s later) = 6)"
    by (rule run_stage_mono[OF inv])
  have t: "interview_stage ?s \<le> interview_stage (after (script_run cfg a ev ?s)) \<and>
     (interview_stage ?s = 6 \<longrightarrow> interview_stage (after (script_run cfg a ev ?s)) = 6)"
    by (rule script_stage_step[OF inv])
  from r t show ?thesis by (simp add: run_append)
qed

lemma example_interview_stage:
  "interview_stage (run cfg_none initialize_session_state example_interview) = 6"
  by code_simp

theorem stage_monotone_witness:
  "interview_stage (run cfg_none initialize_session_state example_interview) = 6 \<and>
   interview_stage (run cfg_none initialize_session_state
      (example_interview @ [(api_ok, SendText ''Thank you''), (api_ok, NoAction)])) = 6 \<and>
   interview_stage (after (script_run cfg_none api_ok (SendText ''Goodbye'')
      (run cfg_none initialize_session_state example_interview))) = 6"
  using stage_monotone[of cfg_none example_interview
          "[(api_ok, SendText ''Thank you''), (api_ok, NoAction)]" api_ok "SendText ''Goodbye''"]
        example_interview_stage
  by simp


subsection \<open>The choice of technologies\<close>

lemma empty_selection_ignored:
  assumes "chat_history s \<noteq> []" "interview_stage s = 4"
  shows "script_run cfg a (TechStackSubmit []) s = unchanged s"
  using assms by (simp add: script_run_def)

lemma reachable_started:
  assumes "interview_stage (run cfg initialize_session_state inputs) \<noteq> 0"
  shows "chat_history (run cfg initialize_session_state inputs) \<noteq> []"
proof
  assume "chat_history (run cfg initialize_session_state inputs) = []"
  then have "run cfg initialize_session_state inputs = initialize_session_state"
    using reachable_inv[of cfg inputs] by (simp add: session_inv_def)
  then show False using assms by (simp add: initialize_session_state_def)
qed

text \<open>
  Claim C8. In a reached session at stage 4 (the choice of technologies), submitting the
  form with an empty selection changes nothing in the session and calls nothing: the stage
  stays 4 and tech\_stack, unset there, stays unset. A reached session at stage 5 (the
  technical assessment) has tech\_stack set to a non-empty list.
\<close>

theorem tech_stack_gate:
  "(interview_stage (run cfg initialize_session_state inputs) = 4 \<longrightarrow>
      script_run cfg a (TechStackSubmit []) (run cfg initialize_session_state inputs)
        = unchanged (run cfg initialize_session_state inputs) \<and>
      interview_stage (after (script_run cfg a (TechStackSubmit [])
        (run cfg initialize_session_state inputs))) = 4 \<and>
      map_of (candidate_info (after (script_run cfg a (TechStackSubmit [])
        (run cfg initialize_session_state inputs)))) ''tech_stack'' = None) \<and>
   (interview_stage (run cfg initialize_session_state inputs) = 5 \<longrightarrow>
      (\<exists>ts. map_of (candidate_info (run cfg initialize_session_state inputs)) ''tech_stack''
              = Some (PList ts) \<and> ts \<noteq> []))"
proof (intro conjI impI)
  let ?s = "run cfg initialize_session_state inputs"
  {
    assume st: "interview_stage ?s = 4"
    then have ne: "chat_history ?s \<noteq> []" using reachable_started[of cfg inputs] by simp
    have lt: "interview_stage ?s < 5" using st by simp
    show u: "script_run cfg a (TechStackSubmit []) ?s = unchanged ?s"
      by (rule empty_selection_ignored[OF ne st])
    show "interview_stage (after (script_run cfg a (TechStackSubmit []) ?s)) = 4"
      unfolding u using st by (simp add: unchanged_def)
    show "map_of (candidate_info (after (script_run cfg a (TechStackSubmit []) ?s))) ''tech_stack'' = None"
      unfolding u using session_inv_early(3)[OF reachable_inv ne lt] by (simp add: unchanged_def)
  }
  {
    assume st: "interview_stage ?s = 5"
    then have ne: "chat_history ?s \<noteq> []" using reachable_started[of cfg inputs] by simp
    have ge: "5 \<le> interview_stage ?s" using st by simp
    show "\<exists>ts. map_of (candidate_info ?s) ''tech_stack'' = Some (PList ts) \<and> ts \<noteq> []"
      by (rule session_inv_late(1)[OF reachable_inv ne ge])
  }
qed

lemma example_before_tech_stage:
  "interview_stage (run cfg_none initialize_session_state example_before_tech) = 4"
  by code_simp

lemma example_after_tech_stage:
  "interview_stage (run cfg_none initialize_session_state example_after_tech) = 5"
  by code_simp

theorem tech_stack_gate_witness:
  "interview_stage (run cfg_none initialize_session_state example_before_tech) = 4 \<and>
   script_run cfg_none api_ok (TechStackSubmit [])
       (run cfg_none initialize_session_state example_before_tech)
     = unchanged (run cfg_none initialize_session_state example_before_tech) \<and>
   map_of (candidate_info (after (script_run cfg_none api_ok (TechStackSubmit [])
       (run cfg_none initialize_session_state example_before_tech)))) ''tech_stack'' = None \<and>
   interview_stage (run cfg_none initialize_session_state example_after_tech) = 5 \<and>
   (\<exists>ts. map_of (candidate_info (run cfg_none initialize_session_state example_after_tech))
            ''tech_stack'' = Some (PList ts) \<and> ts \<noteq> [])"
proof -
  note b = tech_stack_gate[of cfg_none example_before_tech api_ok]
  note c = tech_stack_gate[of cfg_none example_after_tech api_ok]
  from b example_before_tech_stage
  have 1: "script_run cfg_none api_ok (TechStackSubmit [])
       (run cfg_none initialize_session_state example_before_tech)
     = unchanged (run cfg_none initialize_session_state example_before_tech)"
    and 2: "map_of (candidate_info (after (script_run cfg_none api_ok (TechStackSubmit [])
       (run cfg_none initialize_session_state example_before_tech)))) ''tech_stack'' = None"
    by blast+
  from c example_after_tech_stage
  have 3: "\<exists>ts. map_of (candidate_info (run cfg_none initialize_session_state example_after_tech))
            ''tech_stack'' = Some (PList ts) \<and> ts \<noteq> []"
    by blast
  from example_before_tech_stage 1 2 example_after_tech_stage 3
  show ?thesis by (intro conjI)
qed

section \<open>Questions made of a fallback string\<close>










subsection \<open>The example session at the start of the assessment\<close>

















section \<open>The assessment loop on a reply without the requested fields\<close>

lemma example_retry_questions:
  "technical_questions (run cfg_openai_only example_assessment_start (take 1 example_retry))
     = [''1. What is a list?'', ''2. What is a dict?'']"
  by code_simp

lemma example_retry_unshaped:
  "snd (evaluate_technical_response cfg_openai_only api_unshaped
          ''1. What is a list?'' ''A list is ordered.'' example_tech) = Inr example_unshaped"
  by code_simp

lemma example_retry_raised:
  "script_run cfg_openai_only api_unshaped (SendText ''A list is ordered.'')
      (run cfg_openai_only example_assessment_start (take 1 example_retry))
     = \<lparr>after = update_chat_history ''user'' ''A list is ordered.''
                 (run cfg_openai_only example_assessment_start (take 1 example_retry)),
        calls = [EvalCall ''1. What is a list?'' ''A list is ordered.'' example_tech],
        raised = Some (KeyError ''response'')\<rparr>"
  by code_simp

lemma example_retry_calls:
  "filter is_eval_call (run_calls cfg_openai_only example_assessment_start example_retry)
     = [EvalCall ''1. What is a list?'' ''A list is ordered.'' example_tech,
        EvalCall ''1. What is a list?'' ''It is a sequence.'' example_tech]"
  by code_simp

lemma example_retry_end:
  "current_question_index (run cfg_openai_only example_assessment_start example_retry) = 1"
  "interview_stage (run cfg_openai_only example_assessment_start example_retry) = 5"
  by (code_simp+)

text \<open>
  Claim C2, at an input where the code departs from it. The example candidate is asked
  two questions. The provider's reply to the evaluation of the first answer decodes to an
  object without the field response: the gateway returns the object as it is and the
  handler raises \<open>KeyError\<close> after the evaluation and before the cursor is incremented.
  The second answer is therefore evaluated against the first question again: over the
  three messages the evaluation is called twice, both times with the question at index 0.
\<close>

theorem assessment_repeats_question:
  "technical_questions (run cfg_openai_only example_assessment_start (take 1 example_retry))
     = [''1. What is a list?'', ''2. What is a dict?''] \<and>
   snd (evaluate_technical_response cfg_openai_only api_unshaped
          ''1. What is a list?'' ''A list is ordered.'' example_tech) = Inr example_unshaped \<and>
   script_run cfg_openai_only api_unshaped (SendText ''A list is ordered.'')
      (run cfg_openai_only example_assessment_start (take 1 example_retry))
     = \<lparr>after = update_chat_history ''user'' ''A list is ordered.''
                 (run cfg_openai_only example_assessment_start (take 1 example_retry)),
        calls = [EvalCall ''1. What is a list?'' ''A list is ordered.'' example_tech],
        raised = Some (KeyError ''response'')\<rparr> \<and>
   filter is_eval_call (run_calls cfg_openai_only example_assessment_start example_retry)
     = [EvalCall ''1. What is a list?'' ''A list is ordered.'' example_tech,
        EvalCall ''1. What is a list?'' ''It is a sequence.'' example_tech] \<and>
   current_question_index (run cfg_openai_only example_assessment_start example_retry) = 1 \<and>
   interview_stage (run cfg_openai_only example_assessment_start example_retry) = 5"
  using example_retry_questions example_retry_unshaped example_retry_raised
        example_retry_calls example_retry_end
  by (intro conjI)

end
